theory Spec2Isabelle
  imports Main "HOL-Library.Word" "HOL-Library.Sublist"
begin

unbundle bit_operations_syntax

section \<open>The SQLite driver: data model\<close>

text \<open>
  The driver (package sqlite3, the file whose first comment is "SQLite database driver
  for Go") is a thin layer over the C interface of SQLite. A value of type C.int is a
  32-bit word; a Go int read from one (int(C.f(...))) is its signed value, an
  Isabelle int. A pointer to a C object (sqlite3*, sqlite3_stmt*) is a number, nil
  being 0. A nil slice is the empty list.
\<close>

type_synonym cint = "32 word"
type_synonym pointer = nat

definition nil :: pointer where
  "nil = 0"

text \<open>
  Modelled from the spec: the constants StatusOk, StatusRow and StatusDone are declared
  in a file of the package that is not part of the sources at hand. The spec names
  them as the success status and the two normal outcomes of a step ("row available",
  "operation complete, no more rows"); their values are those of SQLite's
  SQLITE_OK, SQLITE_ROW and SQLITE_DONE.
\<close>

definition StatusOk :: cint where
  "StatusOk = 0"

definition StatusRow :: cint where
  "StatusRow = 100"

definition StatusDone :: cint where
  "StatusDone = 101"

text \<open>
  Modelled from the spec: DriverError and SystemError are declared in the same missing
  file. Their fields are read off the composite literals and assignments of the driver:
  DriverError{message}; SystemError with basic, extended and message. LibraryError
  stands for an os.Error handed up unchanged from a library routine (URL parsing,
  strconv.Atoi).
\<close>

datatype os_Error =
    DriverError string
  | SystemError (basic: int) (extended: int) (message: string)
  | LibraryError string

subsection \<open>The engine\<close>

text \<open>
  SQLite itself is outside the repository. Every call the driver makes through cgo is
  recorded, in order, in a log; what a call returns is given by an engine, which
  answers a call from the calls made before it. An engine is therefore any
  deterministic behaviour of the C library, and "no engine call is made" is "the log
  did not grow".
\<close>

datatype call =
    Open_v2 string cint "string option"
  | Busy_timeout pointer cint
  | Extended_result_codes pointer cint
  | Close_db pointer
  | Errcode pointer
  | Extended_errcode pointer
  | Errmsg pointer
  | Prepare_v2 pointer string
  | Finalize pointer
  | Bind_parameter_count pointer
  | Bind_text pointer cint string
  | Step pointer
  | Reset pointer
  | Clear_bindings pointer
  | Column_count pointer
  | Column_text pointer cint
  | Column_name pointer cint

type_synonym log = "call list"

record engine =
  returns :: "log \<Rightarrow> call \<Rightarrow> cint"
  returns_text :: "log \<Rightarrow> call \<Rightarrow> string"
  returns_pointer :: "log \<Rightarrow> call \<Rightarrow> pointer"

definition call_int :: "engine \<Rightarrow> call \<Rightarrow> log \<Rightarrow> cint \<times> log" where
  "call_int E c tr = (returns E tr c, tr @ [c])"

definition call_text :: "engine \<Rightarrow> call \<Rightarrow> log \<Rightarrow> string \<times> log" where
  "call_text E c tr = (returns_text E tr c, tr @ [c])"

subsection \<open>Connections, statements, cursors and result sets\<close>

record Connection =
  conn_handle :: pointer

record Statement =
  stmt_handle :: pointer
  stmt_connection :: Connection

record Cursor =
  statement :: Statement
  connection :: Connection
  result :: bool

record ClassicResultSet =
  rs_statement :: Statement
  rs_connection :: Connection
  rs_more :: bool

record Result =
  res_data :: "string list"
  res_error :: "os_Error option"

section \<open>Connection.error and Statement.clear\<close>

text \<open>
  Connection.error: the extended code is sqlite3_errcode's, the basic code its low
  byte, the message sqlite3_errmsg's.
\<close>

definition Connection_error :: "engine \<Rightarrow> Connection \<Rightarrow> log \<Rightarrow> os_Error \<times> log" where
  "Connection_error E self tr =
     (let (rc, tr1) = call_int E (Errcode (conn_handle self)) tr;
          ext = sint rc;
          (msg, tr2) = call_text E (Errmsg (conn_handle self)) tr1
      in (SystemError (ext AND 0xff) ext msg, tr2))"

text \<open>
  Statement.clear: sqlite3_reset, then sqlite3_clear_bindings when the reset returned
  StatusOk; nil when both did, the connection's error otherwise.
\<close>

definition clear :: "engine \<Rightarrow> Statement \<Rightarrow> log \<Rightarrow> os_Error option \<times> log" where
  "clear E self tr =
     (let (rc, tr1) = call_int E (Reset (stmt_handle self)) tr
      in if rc = StatusOk
         then (let (rc2, tr2) = call_int E (Clear_bindings (stmt_handle self)) tr1
               in if rc2 = StatusOk then (None, tr2)
                  else (let (e, tr3) = Connection_error E (stmt_connection self) tr2
                        in (Some e, tr3)))
         else (let (e, tr3) = Connection_error E (stmt_connection self) tr1
               in (Some e, tr3)))"

section \<open>Fetching\<close>

text \<open>
  The loop "for i := 0; i < nColumns; i++" of FetchOne and Fetch, reading the text of
  column i of the current row.
\<close>

function column_texts :: "engine \<Rightarrow> pointer \<Rightarrow> int \<Rightarrow> int \<Rightarrow> log \<Rightarrow> string list \<times> log" where
  "column_texts E h i nColumns tr =
     (if i < nColumns
      then (let (t, tr1) = call_text E (Column_text h (word_of_int i)) tr;
                (ts, tr2) = column_texts E h (i + 1) nColumns tr1
            in (t # ts, tr2))
      else ([], tr))"
  by pat_completeness auto
termination
  by (relation "measure (\<lambda>(E, h, i, n, tr). nat (n - i))") auto

declare column_texts.simps [simp del]

text \<open>
  Cursor.FetchOne. The row handed out is the one the previous step produced; the step
  made here looks one row ahead. The error of clear is dropped, as in the source.
\<close>

definition FetchOne ::
  "engine \<Rightarrow> Cursor \<Rightarrow> log \<Rightarrow> (string list \<times> os_Error option) \<times> Cursor \<times> log" where
  "FetchOne E self tr =
     (if \<not> result self
      then (([], Some (DriverError ''FetchOne: No results to fetch!'')), self, tr)
      else
       (let h = stmt_handle (statement self);
            (n, tr1) = call_int E (Column_count h) tr;
            nColumns = sint n
        in if nColumns \<le> 0
           then (([], Some (DriverError ''FetchOne: No columns in result!'')), self, tr1)
           else
            (let (row, tr2) = column_texts E h 0 nColumns tr1;
                 (rc, tr3) = call_int E (Step h) tr2;
                 (err, tr4) =
                   (if rc \<noteq> StatusDone \<and> rc \<noteq> StatusRow
                    then (let (e, t) = Connection_error E (connection self) tr3 in (Some e, t))
                    else (None, tr3))
             in if rc = StatusDone
                then (let (ignored, tr5) = clear E (statement self) tr4
                      in ((row, err), self\<lparr>result := False\<rparr>, tr5))
                else ((row, err), self, tr4))))"

text \<open>
  Cursor.FetchRow: the same protocol, the row keyed by column name. For each column
  the text is read first, then the name; a later column of the same name overwrites.
\<close>

function column_map ::
  "engine \<Rightarrow> pointer \<Rightarrow> int \<Rightarrow> int \<Rightarrow> (string \<rightharpoonup> string) \<Rightarrow> log \<Rightarrow> (string \<rightharpoonup> string) \<times> log" where
  "column_map E h i nColumns m tr =
     (if i < nColumns
      then (let (t, tr1) = call_text E (Column_text h (word_of_int i)) tr;
                (name, tr2) = call_text E (Column_name h (word_of_int i)) tr1
            in column_map E h (i + 1) nColumns (m(name \<mapsto> t)) tr2)
      else (m, tr))"
  by pat_completeness auto
termination
  by (relation "measure (\<lambda>(E, h, i, n, m, tr). nat (n - i))") auto

declare column_map.simps [simp del]

definition FetchRow ::
  "engine \<Rightarrow> Cursor \<Rightarrow> log \<Rightarrow> ((string \<rightharpoonup> string) \<times> os_Error option) \<times> Cursor \<times> log" where
  "FetchRow E self tr =
     (if \<not> result self
      then ((Map.empty, Some (DriverError ''FetchRow: No results to fetch!'')), self, tr)
      else
       (let h = stmt_handle (statement self);
            (n, tr1) = call_int E (Column_count h) tr;
            nColumns = sint n
        in if nColumns \<le> 0
           then ((Map.empty, Some (DriverError ''FetchRow: No columns in result!'')), self, tr1)
           else
            (let (row, tr2) = column_map E h 0 nColumns Map.empty tr1;
                 (rc, tr3) = call_int E (Step h) tr2;
                 (err, tr4) =
                   (if rc \<noteq> StatusDone \<and> rc \<noteq> StatusRow
                    then (let (e, t) = Connection_error E (connection self) tr3 in (Some e, t))
                    else (None, tr3))
             in if rc = StatusDone
                then (let (ignored, tr5) = clear E (statement self) tr4
                      in ((row, err), self\<lparr>result := False\<rparr>, tr5))
                else ((row, err), self, tr4))))"

text \<open>ClassicResultSet.More and ClassicResultSet.Fetch.\<close>

definition More :: "ClassicResultSet \<Rightarrow> bool" where
  "More self = rs_more self"

definition Fetch :: "engine \<Rightarrow> ClassicResultSet \<Rightarrow> log \<Rightarrow> Result \<times> ClassicResultSet \<times> log" where
  "Fetch E self tr =
     (if \<not> rs_more self
      then (\<lparr>res_data = [], res_error = Some (DriverError ''Fetch: No result to fetch!'')\<rparr>, self, tr)
      else
       (let h = stmt_handle (rs_statement self);
            (n, tr1) = call_int E (Column_count h) tr;
            nColumns = sint n
        in if nColumns \<le> 0
           then (\<lparr>res_data = [], res_error = Some (DriverError ''Fetch: No columns in result!'')\<rparr>,
                 self, tr1)
           else
            (let (row, tr2) = column_texts E h 0 nColumns tr1;
                 (rc, tr3) = call_int E (Step h) tr2;
                 (err, tr4) =
                   (if rc \<noteq> StatusDone \<and> rc \<noteq> StatusRow
                    then (let (e, t) = Connection_error E (rs_connection self) tr3 in (Some e, t))
                    else (None, tr3))
             in if rc = StatusDone
                then (let (ignored, tr5) = clear E (rs_statement self) tr4
                      in (\<lparr>res_data = row, res_error = err\<rparr>, self\<lparr>rs_more := False\<rparr>, tr5))
                else (\<lparr>res_data = row, res_error = err\<rparr>, self, tr4))))"

text \<open>Cursor.MoreResults, and Cursor.Close and ClassicResultSet.Close, which do nothing.\<close>

definition MoreResults :: "Cursor \<Rightarrow> bool" where
  "MoreResults self = result self"

definition Cursor_Close :: "Cursor \<Rightarrow> os_Error option" where
  "Cursor_Close self = None"

definition ClassicResultSet_Close :: "ClassicResultSet \<Rightarrow> os_Error option" where
  "ClassicResultSet_Close self = None"

subsection \<open>FetchMany and FetchAll\<close>

text \<open>
  A call either returns or panics (a failed type assertion, make with a negative
  length); a panic is a value of the model.
\<close>

datatype 'a outcome = Returns 'a | Panics

text \<open>
  The loop of FetchMany: d is the slice of count rows made before the loop, l the
  number of rows stored, e the error of the last FetchOne. The row FetchOne returns is
  stored at d[l] whether or not an error came with it; l moves on only without error.
\<close>

function FetchMany_loop ::
  "engine \<Rightarrow> int \<Rightarrow> string list list \<Rightarrow> int \<Rightarrow> os_Error option \<Rightarrow> Cursor \<Rightarrow> log
   \<Rightarrow> (string list list \<times> int \<times> os_Error option) \<times> Cursor \<times> log" where
  "FetchMany_loop E count d l e self tr =
     (if l < count
      then (let ((row, e'), self', tr') = FetchOne E self tr;
                d' = d[nat l := row]
            in if e' = None
               then FetchMany_loop E count d' (l + 1) e' self' tr'
               else ((d', l, e'), self', tr'))
      else ((d, l, e), self, tr))"
  by pat_completeness auto
termination
  by (relation "measure (\<lambda>(E, count, d, l, e, self, tr). nat (count - l))") auto

declare FetchMany_loop.simps [simp del]

definition FetchMany ::
  "engine \<Rightarrow> int \<Rightarrow> Cursor \<Rightarrow> log \<Rightarrow> (string list list \<times> os_Error option) outcome \<times> Cursor \<times> log" where
  "FetchMany E count self tr =
     (if count < 0 then (Panics, self, tr)
      else
       (let ((d, l, e), self', tr') = FetchMany_loop E count (replicate (nat count) []) 0 None self tr
        in if l > 0
           then (if l < count
                 then (Returns (take (nat l) d, None), self', tr')
                 else (Returns (d, None), self', tr'))
           else (Returns ([], e), self', tr')))"

text \<open>
  The loop of FetchAll runs until FetchOne returns an error; it need not end, so its
  model returns an option, None for a loop that never leaves.
\<close>

partial_function (option) FetchAll_loop ::
  "engine \<Rightarrow> string list list \<Rightarrow> Cursor \<Rightarrow> log
   \<Rightarrow> ((string list list \<times> os_Error) \<times> Cursor \<times> log) option" where
  "FetchAll_loop E v self tr =
     (case FetchOne E self tr of
        ((d, e), self', tr') \<Rightarrow>
          (case e of
             Some err \<Rightarrow> Some ((v, err), self', tr')
           | None \<Rightarrow> FetchAll_loop E (v @ [d]) self' tr'))"

definition FetchAll ::
  "engine \<Rightarrow> Cursor \<Rightarrow> log \<Rightarrow> ((string list list \<times> os_Error option) \<times> Cursor \<times> log) option" where
  "FetchAll E self tr =
     (case FetchAll_loop E [] self tr of
        None \<Rightarrow> None
      | Some ((v, e), self', tr') \<Rightarrow>
          Some ((if length v > 0 then (v, None) else ([], Some e)), self', tr'))"

section \<open>Executing a statement\<close>

text \<open>
  The statement handed to ExecuteClassic is a value of the interface db.Statement: a
  statement of this driver or of another. A parameter is a string or a value of
  another type, on which the assertion v.(*reflect.StringValue) panics.
\<close>

datatype db_Statement = Sqlite3_Statement Statement | Other_Statement

datatype parameter = StringValue string | OtherValue

datatype bound = Bound log | BindFailed os_Error log | BindPanics log

text \<open>The loop "for k, v := range pa": parameter k is bound to slot k + 1.\<close>

fun bind_loop :: "engine \<Rightarrow> Connection \<Rightarrow> Statement \<Rightarrow> nat \<Rightarrow> parameter list \<Rightarrow> log \<Rightarrow> bound" where
  "bind_loop E self s k [] tr = Bound tr"
| "bind_loop E self s k (OtherValue # pa) tr = BindPanics tr"
| "bind_loop E self s k (StringValue q # pa) tr =
     (let (rc, tr1) = call_int E (Bind_text (stmt_handle s) (of_nat (k + 1)) q) tr
      in if rc \<noteq> StatusOk
         then (let (e, tr2) = Connection_error E self tr1;
                   (ignored, tr3) = clear E s tr2
               in BindFailed e tr3)
         else bind_loop E self s (k + 1) pa tr1)"

definition ExecuteClassic ::
  "engine \<Rightarrow> Connection \<Rightarrow> db_Statement \<Rightarrow> parameter list \<Rightarrow> log
   \<Rightarrow> (ClassicResultSet option \<times> os_Error option) outcome \<times> log" where
  "ExecuteClassic E self stmt parameters tr =
     (case stmt of
        Other_Statement \<Rightarrow>
          (Returns (None, Some (DriverError ''Execute: Not an sqlite3 statement!'')), tr)
      | Sqlite3_Statement s \<Rightarrow>
         (let (n, tr1) = call_int E (Bind_parameter_count (stmt_handle s)) tr
          in if int (length parameters) \<noteq> sint n
             then (Returns (None, Some (DriverError
                     (''Execute: Number of parameters doesn'' @ [CHR 0x27] @ ''t match!''))), tr1)
             else
              (case bind_loop E self s 0 parameters tr1 of
                 BindPanics tr2 \<Rightarrow> (Panics, tr2)
               | BindFailed e tr2 \<Rightarrow> (Returns (None, Some e), tr2)
               | Bound tr2 \<Rightarrow>
                  (let (rc, tr3) = call_int E (Step (stmt_handle s)) tr2;
                       (err, tr4) =
                         (if rc \<noteq> StatusDone \<and> rc \<noteq> StatusRow
                          then (let (e, t) = Connection_error E self tr3 in (Some e, t))
                          else (None, tr3))
                   in if rc = StatusRow
                      then (Returns (Some \<lparr>rs_statement = s, rs_connection = self, rs_more = True\<rparr>,
                                     err), tr4)
                      else (let (ignored, tr5) = clear E s tr4
                            in (Returns (None, err), tr5))))))"

subsection \<open>Execute and iterate\<close>

text \<open>
  Execute calls ExecuteClassic, handing on its parameters as they are (a "..."
  parameter passed to a "..." parameter is not wrapped again), and returns the error of
  ExecuteClassic when there is one. Otherwise it starts the goroutine iterate on the
  result set that ExecuteClassic returned, which is the nil interface when the first
  step reported completion, and returns the channel that the goroutine feeds. The channel is modelled by its producer: Iterate cur
  stands for the channel fed by "go iterate(cur, ch)".
\<close>

datatype producer = Iterate "ClassicResultSet option"

definition Execute ::
  "engine \<Rightarrow> Connection \<Rightarrow> db_Statement \<Rightarrow> parameter list \<Rightarrow> log
   \<Rightarrow> (producer option \<times> os_Error option) outcome \<times> log" where
  "Execute E self stmt parameters tr =
     (case ExecuteClassic E self stmt parameters tr of
        (Panics, tr') \<Rightarrow> (Panics, tr')
      | (Returns (cur, err), tr') \<Rightarrow>
          if err \<noteq> None then (Returns (None, err), tr')
          else (Returns (Some (Iterate cur), None), tr'))"

text \<open>
  iterate: the loop "for rset.More() { channel <- rset.Fetch() }", followed by
  rset.Close() and close(channel). A method call on the nil interface panics, so
  iterate panics at its first rset.More() when it was given no result set. The loop
  need not end; the model returns the results sent on the channel (each of them taken
  by a receiver), and None for a loop that never leaves.
\<close>

partial_function (option) iterate_loop ::
  "engine \<Rightarrow> ClassicResultSet \<Rightarrow> Result list \<Rightarrow> log
   \<Rightarrow> (Result list \<times> ClassicResultSet \<times> log) option" where
  "iterate_loop E rset sent tr =
     (if More rset
      then (case Fetch E rset tr of
              (r, rset', tr') \<Rightarrow> iterate_loop E rset' (sent @ [r]) tr')
      else Some (sent, rset, tr))"

definition iterate ::
  "engine \<Rightarrow> ClassicResultSet option \<Rightarrow> log \<Rightarrow> (Result list outcome \<times> log) option" where
  "iterate E rset tr =
     (case rset of
        None \<Rightarrow> Some (Panics, tr)
      | Some rs \<Rightarrow>
          (case iterate_loop E rs [] tr of
             None \<Rightarrow> None
           | Some (sent, rs', tr') \<Rightarrow> Some (Returns sent, tr')))"

section \<open>Opening a connection\<close>

definition OpenNoMutex :: int where
  "OpenNoMutex = 0x00008000"

definition OpenFullMutex :: int where
  "OpenFullMutex = 0x00010000"

definition defaultTimeoutMilliseconds :: int where
  "defaultTimeoutMilliseconds = 16 * 1000"

text \<open>
  parseConnInfo rests on three routines from outside the driver: http.ParseURL,
  db.ParseQueryURL and strconv.Atoi. They are parameters of the model. Atoi returns a
  number and an error, as in Go.
\<close>

record URL =
  Scheme :: string
  Path :: string
  RawQuery :: string

record library =
  ParseURL :: "string \<Rightarrow> os_Error + URL"
  ParseQueryURL :: "string \<Rightarrow> os_Error + (string \<rightharpoonup> string)"
  Atoi :: "string \<Rightarrow> int \<times> os_Error option"

definition parseConnInfo ::
  "library \<Rightarrow> string \<Rightarrow> string \<times> int \<times> string option \<times> os_Error option" where
  "parseConnInfo L str =
     (case ParseURL L str of
        Inl e \<Rightarrow> ([], 0, None, Some e)
      | Inr url \<Rightarrow>
         if length (Scheme url) > 0 \<and> Scheme url \<noteq> ''sqlite3''
         then ([], 0, None,
               Some (DriverError (''Open: unknown scheme '' @ Scheme url @ '' expected sqlite3'')))
         else if length (Path url) = 0
         then ([], 0, None, Some (DriverError ''Open: no path or database name''))
         else
          (let name = Path url
           in if length (RawQuery url) > 0
              then (case ParseQueryURL L (RawQuery url) of
                      Inl e \<Rightarrow> (name, 0, None, Some e)
                    | Inr options \<Rightarrow>
                       (let (flags, err) =
                              (case options ''flags'' of
                                 Some rflags \<Rightarrow> Atoi L rflags
                               | None \<Rightarrow> (0, None))
                        in if err \<noteq> None then (name, flags, None, err)
                           else (name, flags, options ''vfs'', None)))
              else (name, 0, None, None)))"

definition Connection_Close :: "engine \<Rightarrow> Connection \<Rightarrow> log \<Rightarrow> os_Error option \<times> log" where
  "Connection_Close E self tr =
     (let (rc, tr1) = call_int E (Close_db (conn_handle self)) tr
      in if rc \<noteq> StatusOk
         then (let (e, tr2) = Connection_error E self tr1 in (Some e, tr2))
         else (None, tr1))"

text \<open>
  open. sqlite3_open_v2 returns a status and stores a handle, possibly nil, in the new
  connection.
\<close>

definition "open" ::
  "library \<Rightarrow> engine \<Rightarrow> string \<Rightarrow> log \<Rightarrow> (Connection option \<times> os_Error option) \<times> log" where
  "open L E url tr =
     (let (name, flags0, vfs, err) = parseConnInfo L url
      in if err \<noteq> None then ((None, err), tr)
         else
          (let flags = (flags0 AND NOT OpenNoMutex) OR OpenFullMutex;
               c = Open_v2 name (word_of_int flags) vfs;
               rc = returns E tr c;
               conn = \<lparr>conn_handle = returns_pointer E tr c\<rparr>;
               tr1 = tr @ [c]
           in if rc \<noteq> StatusOk
              then (let (e, tr2) = Connection_error E conn tr1
                    in if conn_handle conn \<noteq> nil
                       then (let (ignored, tr3) = Connection_Close E conn tr2
                             in ((None, Some e), tr3))
                       else ((None, Some e), tr2))
              else
               (let (rc2, tr2) = call_int E (Busy_timeout (conn_handle conn)
                                   (word_of_int defaultTimeoutMilliseconds)) tr1
                in if rc2 \<noteq> StatusOk
                   then (let (e, tr3) = Connection_error E conn tr2;
                             (ignored, tr4) = Connection_Close E conn tr3
                         in ((None, Some e), tr4))
                   else
                    (let (rc3, tr3) = call_int E (Extended_result_codes (conn_handle conn) 1) tr2
                     in if rc3 \<noteq> StatusOk
                        then (let (e, tr4) = Connection_error E conn tr3;
                                  (ignored, tr5) = Connection_Close E conn tr4
                              in ((None, Some e), tr5))
                        else ((Some conn, None), tr3)))))"

subsection \<open>The draft of the driver: open from a map of options\<close>

text \<open>
  The file src/sqlite3/core.go is an earlier draft of the same package. Its open takes
  a map from option names to values of any type in place of a connection string, and
  calls the engine through the wrappers of wrapper.h (wsq_open is sqlite3_open_v2,
  wsq_busy_timeout is sqlite3_busy_timeout, and so on), which are logged as the calls
  they wrap. A value of the map is a string, an int or something else; the assertions
  any.(int) and any.(string) panic on a value of another type. The draft's open
  returns the connection it made whether or not the engine reported an error, and its
  Connection.error reads the basic and the extended code with two calls.

  Modelled from the spec: the draft's InterfaceError and DatabaseError are declared in
  a file that is not part of the sources at hand. Their fields are read off the draft:
  InterfaceError{message}; DatabaseError with basic, extended and message.
\<close>

datatype Any = Any_string string | Any_int int | Any_other

type_synonym ConnectionInfo = "string \<rightharpoonup> Any"

datatype draft_Error = InterfaceError string | DatabaseError int int string

definition draft_Connection_error :: "engine \<Rightarrow> Connection \<Rightarrow> log \<Rightarrow> draft_Error \<times> log" where
  "draft_Connection_error E self tr =
     (let (b, tr1) = call_int E (Errcode (conn_handle self)) tr;
          (x, tr2) = call_int E (Extended_errcode (conn_handle self)) tr1;
          (msg, tr3) = call_text E (Errmsg (conn_handle self)) tr2
      in (DatabaseError (sint b) (sint x) msg, tr3))"

definition draft_parseConnInfo ::
  "ConnectionInfo \<Rightarrow> (string \<times> int \<times> string option \<times> draft_Error option) outcome" where
  "draft_parseConnInfo info =
     (case info ''name'' of
        None \<Rightarrow>
          Returns ([], 0, None, Some (InterfaceError
            (''Open: No '' @ [CHR 0x22] @ ''name'' @ [CHR 0x22] @ '' in arguments map.'')))
      | Some (Any_string name) \<Rightarrow>
          (case (case info ''sqlite.flags'' of
                   None \<Rightarrow> Returns 0
                 | Some (Any_int f) \<Rightarrow> Returns f
                 | Some other \<Rightarrow> Panics) of
             Panics \<Rightarrow> Panics
           | Returns flags \<Rightarrow>
               (case info ''sqlite.vfs'' of
                  None \<Rightarrow> Returns (name, flags, None, None)
                | Some (Any_string v) \<Rightarrow> Returns (name, flags, Some v, None)
                | Some other \<Rightarrow> Panics))
      | Some other \<Rightarrow>
          Returns ([], 0, None, Some (InterfaceError
            (''Open: '' @ [CHR 0x22] @ ''name'' @ [CHR 0x22] @ '' argument not a string.''))))"

definition draft_open ::
  "engine \<Rightarrow> ConnectionInfo \<Rightarrow> log \<Rightarrow> (Connection option \<times> draft_Error option) outcome \<times> log" where
  "draft_open E info tr =
     (case draft_parseConnInfo info of
        Panics \<Rightarrow> (Panics, tr)
      | Returns (name, flags, vfs, err) \<Rightarrow>
          if err \<noteq> None then (Returns (None, err), tr)
          else
           (let c = Open_v2 name (word_of_int flags) vfs;
                rc = returns E tr c;
                conn = \<lparr>conn_handle = returns_pointer E tr c\<rparr>;
                tr1 = tr @ [c]
            in if rc \<noteq> StatusOk
               then (let (e, tr2) = draft_Connection_error E conn tr1
                     in (Returns (Some conn, Some e), tr2))
               else
                (let (rc2, tr2) = call_int E (Busy_timeout (conn_handle conn)
                                    (word_of_int defaultTimeoutMilliseconds)) tr1
                 in if rc2 \<noteq> StatusOk
                    then (let (e, tr3) = draft_Connection_error E conn tr2
                          in (Returns (Some conn, Some e), tr3))
                    else (Returns (Some conn, None), tr2))))"

section \<open>Sequences of calls, and what the specification says\<close>

text \<open>
  What the specification says of FetchMany and FetchAll: FetchOne is called up to n
  times or until it returns an error. fetch_upto gives the rows of the calls without
  error and the error that ended them (None when all n calls gave a row);
  partial_success is the policy for the result: some rows and no error, or no row and
  the error.
\<close>

fun fetch_upto ::
  "engine \<Rightarrow> nat \<Rightarrow> Cursor \<Rightarrow> log \<Rightarrow> (string list list \<times> os_Error option) \<times> Cursor \<times> log" where
  "fetch_upto E 0 self tr = (([], None), self, tr)"
| "fetch_upto E (Suc n) self tr =
     (case FetchOne E self tr of
        ((row, Some e), self', tr') \<Rightarrow> (([], Some e), self', tr')
      | ((row, None), self', tr') \<Rightarrow>
          (case fetch_upto E n self' tr' of
             ((rows, e), self'', tr'') \<Rightarrow> ((row # rows, e), self'', tr'')))"

definition partial_success ::
  "string list list \<times> os_Error option \<Rightarrow> string list list \<times> os_Error option" where
  "partial_success r = (if fst r \<noteq> [] then (fst r, None) else ([], snd r))"

text \<open>
  The calls a program makes on the result sets and cursors it holds. ExecuteClassic
  and Execute add the result set they made to those of the session; the goroutine that
  Execute starts is one more caller of Fetch on that result set, and where it is
  started on no result set it panics, which ends the session. No function of the
  driver makes a Cursor (ExecuteClassic returns a ClassicResultSet, Execute a channel),
  so the cursors of a session are those it starts with. Result sets and cursors are
  pointers in the source and are named here by their position in the session. A call
  on a position the session does not hold changes nothing; a call that panics or does
  not return ends the session with None.
\<close>

record session =
  rsets :: "ClassicResultSet list"
  cursors :: "Cursor list"

datatype session_call =
    Call_ExecuteClassic Connection db_Statement "parameter list"
  | Call_Execute Connection db_Statement "parameter list"
  | Call_Fetch nat
  | Call_More nat
  | Call_rset_Close nat
  | Call_FetchOne nat
  | Call_FetchRow nat
  | Call_FetchMany nat int
  | Call_FetchAll nat
  | Call_MoreResults nat
  | Call_Close nat

fun session_call_run :: "engine \<Rightarrow> session_call \<Rightarrow> session \<Rightarrow> log \<Rightarrow> (session \<times> log) option" where
  "session_call_run E (Call_ExecuteClassic conn stmt ps) s tr =
     (case ExecuteClassic E conn stmt ps tr of
        (Panics, tr') \<Rightarrow> None
      | (Returns (None, err), tr') \<Rightarrow> Some (s, tr')
      | (Returns (Some rs, err), tr') \<Rightarrow> Some (s\<lparr>rsets := rsets s @ [rs]\<rparr>, tr'))"
| "session_call_run E (Call_Execute conn stmt ps) s tr =
     (case Execute E conn stmt ps tr of
        (Panics, tr') \<Rightarrow> None
      | (Returns (None, err), tr') \<Rightarrow> Some (s, tr')
      | (Returns (Some (Iterate None), err), tr') \<Rightarrow> None
      | (Returns (Some (Iterate (Some rs)), err), tr') \<Rightarrow> Some (s\<lparr>rsets := rsets s @ [rs]\<rparr>, tr'))"
| "session_call_run E (Call_Fetch i) s tr =
     (if i < length (rsets s)
      then (case Fetch E (rsets s ! i) tr of
              (r, rs', tr') \<Rightarrow> Some (s\<lparr>rsets := (rsets s)[i := rs']\<rparr>, tr'))
      else Some (s, tr))"
| "session_call_run E (Call_More i) s tr = Some (s, tr)"
| "session_call_run E (Call_rset_Close i) s tr = Some (s, tr)"
| "session_call_run E (Call_FetchOne i) s tr =
     (if i < length (cursors s)
      then (case FetchOne E (cursors s ! i) tr of
              (r, c', tr') \<Rightarrow> Some (s\<lparr>cursors := (cursors s)[i := c']\<rparr>, tr'))
      else Some (s, tr))"
| "session_call_run E (Call_FetchRow i) s tr =
     (if i < length (cursors s)
      then (case FetchRow E (cursors s ! i) tr of
              (r, c', tr') \<Rightarrow> Some (s\<lparr>cursors := (cursors s)[i := c']\<rparr>, tr'))
      else Some (s, tr))"
| "session_call_run E (Call_FetchMany i count) s tr =
     (if i < length (cursors s)
      then (case FetchMany E count (cursors s ! i) tr of
              (Panics, c', tr') \<Rightarrow> None
            | (Returns r, c', tr') \<Rightarrow> Some (s\<lparr>cursors := (cursors s)[i := c']\<rparr>, tr'))
      else Some (s, tr))"
| "session_call_run E (Call_FetchAll i) s tr =
     (if i < length (cursors s)
      then (case FetchAll E (cursors s ! i) tr of
              None \<Rightarrow> None
            | Some (r, c', tr') \<Rightarrow> Some (s\<lparr>cursors := (cursors s)[i := c']\<rparr>, tr'))
      else Some (s, tr))"
| "session_call_run E (Call_MoreResults i) s tr = Some (s, tr)"
| "session_call_run E (Call_Close i) s tr = Some (s, tr)"

fun session_calls_run :: "engine \<Rightarrow> session_call list \<Rightarrow> session \<Rightarrow> log \<Rightarrow> (session \<times> log) option" where
  "session_calls_run E [] s tr = Some (s, tr)"
| "session_calls_run E (c # cs) s tr =
     (case session_call_run E c s tr of
        None \<Rightarrow> None
      | Some (s', tr') \<Rightarrow> session_calls_run E cs s' tr')"

text \<open>The call is made on a result set or a cursor of the session whose flag is false.\<close>

fun on_exhausted :: "session \<Rightarrow> session_call \<Rightarrow> bool" where
  "on_exhausted s (Call_ExecuteClassic conn stmt ps) = False"
| "on_exhausted s (Call_Execute conn stmt ps) = False"
| "on_exhausted s (Call_Fetch i) = (i < length (rsets s) \<and> \<not> rs_more (rsets s ! i))"
| "on_exhausted s (Call_More i) = (i < length (rsets s) \<and> \<not> rs_more (rsets s ! i))"
| "on_exhausted s (Call_rset_Close i) = (i < length (rsets s) \<and> \<not> rs_more (rsets s ! i))"
| "on_exhausted s (Call_FetchOne i) = (i < length (cursors s) \<and> \<not> result (cursors s ! i))"
| "on_exhausted s (Call_FetchRow i) = (i < length (cursors s) \<and> \<not> result (cursors s ! i))"
| "on_exhausted s (Call_FetchMany i count) = (i < length (cursors s) \<and> \<not> result (cursors s ! i))"
| "on_exhausted s (Call_FetchAll i) = (i < length (cursors s) \<and> \<not> result (cursors s ! i))"
| "on_exhausted s (Call_MoreResults i) = (i < length (cursors s) \<and> \<not> result (cursors s ! i))"
| "on_exhausted s (Call_Close i) = (i < length (cursors s) \<and> \<not> result (cursors s ! i))"

text \<open>
  Two readings of "the statement has been reset and its bindings cleared". The first
  looks back: at some point of the log a step on the statement returned StatusDone and
  was followed at once by sqlite3_reset and sqlite3_clear_bindings on it. The second is
  the claim as worded, a property of the present state of the statement: since the
  last step on it, sqlite3_reset and sqlite3_clear_bindings were both called, so that
  it is ready for a new execution.
\<close>

definition was_cleared :: "engine \<Rightarrow> Statement \<Rightarrow> log \<Rightarrow> bool" where
  "was_cleared E s tr =
     (\<exists>tr0 \<in> set (prefixes tr).
        returns E tr0 (Step (stmt_handle s)) = StatusDone
        \<and> prefix (tr0 @ [Step (stmt_handle s), Reset (stmt_handle s), Clear_bindings (stmt_handle s)]) tr)"

definition since_last_step :: "pointer \<Rightarrow> log \<Rightarrow> log" where
  "since_last_step h tr = rev (takeWhile (\<lambda>c. c \<noteq> Step h) (rev tr))"

definition reset_and_unbound :: "Statement \<Rightarrow> log \<Rightarrow> bool" where
  "reset_and_unbound s tr =
     (Reset (stmt_handle s) \<in> set (since_last_step (stmt_handle s) tr)
      \<and> Clear_bindings (stmt_handle s) \<in> set (since_last_step (stmt_handle s) tr))"

text \<open>
  The invariant of a cursor, of a result set and of a session: the flag is true, or
  the statement was cleared after a step that reported completion.
\<close>

definition cursor_inv :: "engine \<Rightarrow> Cursor \<Rightarrow> log \<Rightarrow> bool" where
  "cursor_inv E self tr = (result self \<or> was_cleared E (statement self) tr)"

definition rset_inv :: "engine \<Rightarrow> ClassicResultSet \<Rightarrow> log \<Rightarrow> bool" where
  "rset_inv E self tr = (rs_more self \<or> was_cleared E (rs_statement self) tr)"

definition session_inv :: "engine \<Rightarrow> session \<Rightarrow> log \<Rightarrow> bool" where
  "session_inv E s tr =
     (list_all (\<lambda>r. rset_inv E r tr) (rsets s) \<and> list_all (\<lambda>c. cursor_inv E c tr) (cursors s))"

text \<open>
  What SQLite does and the driver relies on: sqlite3_reset on a statement whose last
  step reported completion returns the success status (it returns the error of the
  last step, and there was none).
\<close>

definition resets_after_done :: "engine \<Rightarrow> bool" where
  "resets_after_done E =
     (\<forall>tr h. returns E tr (Step h) = StatusDone \<longrightarrow> returns E (tr @ [Step h]) (Reset h) = StatusOk)"

text \<open>The flags of the sqlite3_open_v2 calls of a log.\<close>

fun open_flags :: "log \<Rightarrow> cint list" where
  "open_flags [] = []"
| "open_flags (Open_v2 name flags vfs # tr) = flags # open_flags tr"
| "open_flags (c # tr) = open_flags tr"

text \<open>
  An engine for examples: the k-th call of a kind is answered by the k-th entry of
  the list given for it, StatusOk beyond the list; every text is "text", every handle 1.
\<close>

definition scripted :: "(call \<Rightarrow> cint list) \<Rightarrow> engine" where
  "scripted answers =
     \<lparr>returns = (\<lambda>tr c. if count_list tr c < length (answers c)
                         then answers c ! count_list tr c else StatusOk),
      returns_text = (\<lambda>tr c. ''text''),
      returns_pointer = (\<lambda>tr c. 1)\<rparr>"

text \<open>
  An engine whose database stays locked: every step returns 5 (SQLITE_BUSY), as does
  the call that reads the error code; a statement has one column.
\<close>

definition busy_engine :: engine where
  "busy_engine =
     \<lparr>returns = (\<lambda>tr c. case c of Column_count h \<Rightarrow> 1 | Step h \<Rightarrow> 5 | Errcode h \<Rightarrow> 5
                          | other \<Rightarrow> StatusOk),
      returns_text = (\<lambda>tr c. ''text''),
      returns_pointer = (\<lambda>tr c. 1)\<rparr>"

definition conn1 :: Connection where
  "conn1 = \<lparr>conn_handle = 1\<rparr>"

definition stmt1 :: Statement where
  "stmt1 = \<lparr>stmt_handle = 1, stmt_connection = conn1\<rparr>"

definition stmt2 :: Statement where
  "stmt2 = \<lparr>stmt_handle = 2, stmt_connection = conn1\<rparr>"

definition cursor1 :: Cursor where
  "cursor1 = \<lparr>statement = stmt1, connection = conn1, result = True\<rparr>"

definition rset1 :: ClassicResultSet where
  "rset1 = \<lparr>rs_statement = stmt1, rs_connection = conn1, rs_more = True\<rparr>"

definition rset2 :: ClassicResultSet where
  "rset2 = \<lparr>rs_statement = stmt2, rs_connection = conn1, rs_more = True\<rparr>"

text \<open>
  A library for examples: every connection string parses as
  sqlite3://test.db?flags=32768, that is, the caller asks for OpenNoMutex.
\<close>

definition library1 :: library where
  "library1 =
     \<lparr>ParseURL = (\<lambda>str. Inr \<lparr>Scheme = ''sqlite3'', Path = ''test.db'', RawQuery = ''flags=32768''\<rparr>),
      ParseQueryURL = (\<lambda>q. Inr [''flags'' \<mapsto> ''32768'']),
      Atoi = (\<lambda>a. (32768, None))\<rparr>"

text \<open>The same request as a map of options, for the draft's open.\<close>

definition info1 :: ConnectionInfo where
  "info1 = [''name'' \<mapsto> Any_string ''test.db'', ''sqlite.flags'' \<mapsto> Any_int 0x8000]"

section \<open>Auxiliary facts\<close>

lemma call_int_simp [simp]: "call_int E c tr = (returns E tr c, tr @ [c])"
  by (simp add: call_int_def)

lemma call_text_simp [simp]: "call_text E c tr = (returns_text E tr c, tr @ [c])"
  by (simp add: call_text_def)

lemma Connection_error_log: "snd (Connection_error E c tr) = tr @ [Errcode (conn_handle c), Errmsg (conn_handle c)]"
  by (simp add: Connection_error_def Let_def)

lemma clear_log:
  "snd (clear E s tr) =
     tr @ Reset (stmt_handle s) #
       (if returns E tr (Reset (stmt_handle s)) = StatusOk
        then Clear_bindings (stmt_handle s) #
          (if returns E (tr @ [Reset (stmt_handle s)]) (Clear_bindings (stmt_handle s)) = StatusOk
           then []
           else [Errcode (conn_handle (stmt_connection s)), Errmsg (conn_handle (stmt_connection s))])
        else [Errcode (conn_handle (stmt_connection s)), Errmsg (conn_handle (stmt_connection s))])"
  by (simp add: clear_def Let_def split_def Connection_error_log)

lemma column_texts_log:
  "snd (column_texts E h i n tr) = tr @ map (\<lambda>j. Column_text h (word_of_int j)) [i..n - 1]"
proof (induction "nat (n - i)" arbitrary: i tr)
  case 0
  then show ?case
    by (subst column_texts.simps) simp
next
  case (Suc k)
  then have lt: "i < n" and k: "k = nat (n - (i + 1))"
    by linarith+
  have u: "[i..n - 1] = i # [i + 1..n - 1]"
    using lt by (simp add: upto_rec1)
  have "snd (column_texts E h i n tr) =
        snd (column_texts E h (i + 1) n (tr @ [Column_text h (word_of_int i)]))"
    using lt by (subst column_texts.simps) (simp add: split_def Let_def)
  also have "\<dots> = (tr @ [Column_text h (word_of_int i)]) @
               map (\<lambda>j. Column_text h (word_of_int j)) [i + 1..n - 1]"
    by (rule Suc.hyps(1) [OF k])
  finally show ?case
    by (simp add: u)
qed

lemma column_map_log:
  "snd (column_map E h i n m tr) =
     tr @ concat (map (\<lambda>j. [Column_text h (word_of_int j), Column_name h (word_of_int j)]) [i..n - 1])"
proof (induction "nat (n - i)" arbitrary: i m tr)
  case 0
  then show ?case
    by (subst column_map.simps) simp
next
  case (Suc k)
  then have lt: "i < n" and k: "k = nat (n - (i + 1))"
    by linarith+
  have u: "[i..n - 1] = i # [i + 1..n - 1]"
    using lt by (simp add: upto_rec1)
  have "snd (column_map E h i n m tr) =
        snd (column_map E h (i + 1) n
               (m(returns_text E (tr @ [Column_text h (word_of_int i)]) (Column_name h (word_of_int i))
                    \<mapsto> returns_text E tr (Column_text h (word_of_int i))))
               (tr @ [Column_text h (word_of_int i), Column_name h (word_of_int i)]))"
    using lt by (subst column_map.simps) (simp add: split_def Let_def)
  also have "\<dots> = (tr @ [Column_text h (word_of_int i), Column_name h (word_of_int i)]) @
      concat (map (\<lambda>j. [Column_text h (word_of_int j), Column_name h (word_of_int j)]) [i + 1..n - 1])"
    by (rule Suc.hyps(1) [OF k])
  finally show ?case
    by (simp add: u)
qed

lemma mask_force:
  fixes w m f :: cint
  assumes "f AND m = 0"
  shows "((w AND NOT m) OR f) AND m = 0"
proof -
  have "((w AND NOT m) OR f) AND m = ((w AND NOT m) AND m) OR (f AND m)"
    by (simp add: bit.conj_disj_distrib2)
  also have "(w AND NOT m) AND m = 0"
    by (simp add: and.assoc)
  finally show ?thesis using assms by simp
qed

lemma set_force:
  fixes w m f :: cint
  shows "((w AND NOT m) OR f) AND f = f"
  by (simp add: bit.conj_disj_distrib2 and.assoc)

lemma mutex_bits:
  "(word_of_int ((x AND NOT OpenNoMutex) OR OpenFullMutex) :: cint) AND 0x8000 = 0
   \<and> (word_of_int ((x AND NOT OpenNoMutex) OR OpenFullMutex) :: cint) AND 0x10000 = 0x10000"
proof -
  have e: "(word_of_int ((x AND NOT OpenNoMutex) OR OpenFullMutex) :: cint)
        = ((word_of_int x AND NOT 0x8000) OR 0x10000)"
    by (simp add: OpenNoMutex_def OpenFullMutex_def of_int_or_eq of_int_and_eq of_int_not_eq)
  have z: "(0x10000 :: cint) AND 0x8000 = 0" by simp
  show ?thesis
    unfolding e using mask_force [OF z] set_force by blast
qed

lemma open_flags_append: "open_flags (a @ b) = open_flags a @ open_flags b"
  by (induction a rule: open_flags.induct) simp_all

lemma Connection_Close_log:
  "snd (Connection_Close E c tr) =
     tr @ Close_db (conn_handle c) #
       (if returns E tr (Close_db (conn_handle c)) = StatusOk then []
        else [Errcode (conn_handle c), Errmsg (conn_handle c)])"
  by (simp add: Connection_Close_def Let_def split_def Connection_error_log)

lemma open_parse_failed:
  "snd (snd (snd (parseConnInfo L url))) \<noteq> None \<Longrightarrow>
   open L E url tr = ((None, snd (snd (snd (parseConnInfo L url)))), tr)"
  by (simp add: open_def split_def)

lemma open_flags_of_open:
  "snd (snd (snd (parseConnInfo L url))) = None \<Longrightarrow>
   open_flags (drop (length tr) (snd (open L E url tr))) =
     [word_of_int ((fst (snd (parseConnInfo L url)) AND NOT OpenNoMutex) OR OpenFullMutex)]"
  by (simp add: open_def split_def Let_def Connection_error_log Connection_Close_log
      open_flags_append)

lemma scripted_returns [simp]:
  "returns (scripted f) tr c =
     (if count_list tr c < length (f c) then f c ! count_list tr c else StatusOk)"
  "returns_text (scripted f) tr c = ''text''"
  "returns_pointer (scripted f) tr c = 1"
  by (simp_all add: scripted_def)

lemmas example_defs = conn1_def stmt1_def cursor1_def rset1_def StatusOk_def StatusRow_def StatusDone_def

lemma column_texts_one:
  "column_texts E h 0 1 tr = ([returns_text E tr (Column_text h 0)], tr @ [Column_text h 0])"
  by (simp add: column_texts.simps [of E h 0 1] column_texts.simps [of E h 1 1])

lemma fetch_upto_length: "length (fst (fst (fetch_upto E n self tr))) \<le> n"
proof (induction n arbitrary: self tr)
  case 0
  show ?case by simp
next
  case (Suc n)
  obtain row e self' tr' where f: "FetchOne E self tr = ((row, e), self', tr')"
    by (metis prod.exhaust)
  show ?case
  proof (cases e)
    case None
    with f Suc [of self' tr'] show ?thesis
      by (simp add: split_def)
  next
    case (Some err)
    with f show ?thesis by simp
  qed
qed

lemma FetchMany_loop_fetch_upto:
  assumes "k = nat (count - l)" "0 \<le> l" "l \<le> count" "length d = nat count"
    and "fetch_upto E k self tr = ((rows, e), self', tr')"
  shows "\<exists>d'. FetchMany_loop E count d l None self tr = ((d', l + int (length rows), e), self', tr')
           \<and> length d' = nat count
           \<and> take (nat l + length rows) d' = take (nat l) d @ rows"
  using assms
proof (induction k arbitrary: d l self tr rows)
  case 0
  then have "l = count" by simp
  with 0 show ?case
    by (subst FetchMany_loop.simps) simp
next
  case (Suc k)
  then have lt: "l < count" and k: "k = nat (count - (l + 1))"
    by linarith+
  obtain row e1 self1 tr1 where f: "FetchOne E self tr = ((row, e1), self1, tr1)"
    by (metis prod.exhaust)
  have unf: "FetchMany_loop E count d l None self tr =
      (if e1 = None then FetchMany_loop E count (d[nat l := row]) (l + 1) None self1 tr1
       else ((d[nat l := row], l, e1), self1, tr1))"
    using lt f by (subst FetchMany_loop.simps) (simp add: Let_def)
  show ?case
  proof (cases e1)
    case (Some err)
    with f Suc.prems(5) have "rows = []" "e = Some err" "self' = self1" "tr' = tr1"
      by simp_all
    with Some unf Suc.prems(4) show ?thesis
      by simp
  next
    case None
    obtain rows1 e2 self2 tr2 where r2: "fetch_upto E k self1 tr1 = ((rows1, e2), self2, tr2)"
      by (metis prod.exhaust)
    with f None Suc.prems(5)
    have r1: "fetch_upto E k self1 tr1 = ((rows1, e), self', tr')" and rows: "rows = row # rows1"
      by simp_all
    have len: "length (d[nat l := row]) = nat count"
      using Suc.prems(4) by simp
    from Suc.IH [OF k _ _ len r1]
    obtain d' where d': "FetchMany_loop E count (d[nat l := row]) (l + 1) None self1 tr1 =
          ((d', l + 1 + int (length rows1), e), self', tr')"
        "length d' = nat count"
        "take (nat (l + 1) + length rows1) d' = take (nat (l + 1)) (d[nat l := row]) @ rows1"
      using lt Suc.prems(2) by auto
    have nl: "nat (l + 1) = Suc (nat l)" "nat l < length d"
      using Suc.prems(2,4) lt by simp_all
    have "take (Suc (nat l)) (d[nat l := row]) = take (nat l) d @ [row]"
      using nl(2) by (simp add: take_Suc_conv_app_nth)
    with d' nl rows unf None show ?thesis
      by simp
  qed
qed

lemma FetchMany_fetch_upto:
  assumes "0 \<le> count"
  shows "FetchMany E count self tr =
     (case fetch_upto E (nat count) self tr of
        (r, self', tr') \<Rightarrow> (Returns (partial_success r), self', tr'))"
proof -
  obtain rows e self' tr' where u: "fetch_upto E (nat count) self tr = ((rows, e), self', tr')"
    by (metis prod.exhaust)
  have le: "length rows \<le> nat count"
    using fetch_upto_length [of E "nat count" self tr] u by simp
  from FetchMany_loop_fetch_upto [where l = 0 and d = "replicate (nat count) []", OF _ _ assms _ u]
  obtain d' where d': "FetchMany_loop E count (replicate (nat count) []) 0 None self tr =
        ((d', int (length rows), e), self', tr')"
      "length d' = nat count" "take (length rows) d' = rows"
    by auto
  have full: "\<not> int (length rows) < count \<Longrightarrow> d' = rows"
    using le d'(2,3) by (metis take_all nat_int nat_mono not_less order.antisym of_nat_le_iff linorder_not_le nat_le_iff)
  show ?thesis
    using assms u d' full
    by (auto simp add: FetchMany_def partial_success_def)
qed

lemma FetchAll_loop_fetch_upto:
  "fetch_upto E k self tr = ((rows, Some e), self', tr') \<Longrightarrow>
   FetchAll_loop E v self tr = Some ((v @ rows, e), self', tr')"
proof (induction k arbitrary: self tr rows v)
  case 0
  then show ?case by simp
next
  case (Suc k)
  obtain row e1 self1 tr1 where f: "FetchOne E self tr = ((row, e1), self1, tr1)"
    by (metis prod.exhaust)
  show ?case
  proof (cases e1)
    case (Some err)
    with f Suc.prems show ?thesis
      by (subst FetchAll_loop.simps) simp
  next
    case None
    obtain rows1 e2 self2 tr2 where r2: "fetch_upto E k self1 tr1 = ((rows1, e2), self2, tr2)"
      by (metis prod.exhaust)
    with f None Suc.prems
    have r1: "fetch_upto E k self1 tr1 = ((rows1, Some e), self', tr')" and rows: "rows = row # rows1"
      by simp_all
    from Suc.IH [OF r1, of "v @ [row]"] f None rows show ?thesis
      by (subst FetchAll_loop.simps) simp
  qed
qed

lemma FetchAll_fetch_upto:
  assumes "fetch_upto E k self tr = ((rows, Some e), self', tr')"
  shows "FetchAll E self tr = Some (partial_success (rows, Some e), self', tr')"
  using FetchAll_loop_fetch_upto [OF assms, of "[]"]
  by (simp add: FetchAll_def partial_success_def)

lemma parse_library1: "parseConnInfo library1 url = (''test.db'', 32768, None, None)"
  by (simp add: parseConnInfo_def library1_def Let_def)

lemma flags_library1:
  "(word_of_int ((32768 AND NOT OpenNoMutex) OR OpenFullMutex) :: cint) = 0x10000"
  by (simp add: OpenNoMutex_def OpenFullMutex_def)

lemma fetch_upto_three_rows:
  "fetch_upto (scripted ((\<lambda>c. [])(Column_count 1 := [1, 1, 1], Step 1 := [100, 100, 101])))
     (Suc (Suc (Suc (Suc n)))) cursor1 [] =
     (([[''text''], [''text''], [''text'']], Some (DriverError ''FetchOne: No results to fetch!'')),
      cursor1\<lparr>result := False\<rparr>,
      [Column_count 1, Column_text 1 0, Step 1, Column_count 1, Column_text 1 0, Step 1,
       Column_count 1, Column_text 1 0, Step 1, Reset 1, Clear_bindings 1])"
  by (simp add: FetchOne_def Let_def column_texts_one clear_def example_defs)

lemmas example_defs2 = stmt2_def rset2_def

lemma was_cleared_mono:
  "prefix tr tr' \<Longrightarrow> was_cleared E s tr \<Longrightarrow> was_cleared E s tr'"
  unfolding was_cleared_def Bex_def in_set_prefixes
  by (meson prefix_order.trans)

lemma clear_after_done:
  assumes "resets_after_done E" "returns E t (Step (stmt_handle s)) = StatusDone"
  shows "was_cleared E s (snd (clear E s (t @ [Step (stmt_handle s)])))"
proof -
  have "returns E (t @ [Step (stmt_handle s)]) (Reset (stmt_handle s)) = StatusOk"
    using assms by (simp add: resets_after_done_def)
  then have "prefix (t @ [Step (stmt_handle s), Reset (stmt_handle s), Clear_bindings (stmt_handle s)])
      (snd (clear E s (t @ [Step (stmt_handle s)])))"
    by (simp add: clear_log)
  moreover have "prefix t (snd (clear E s (t @ [Step (stmt_handle s)])))"
    by (simp add: clear_log)
  ultimately show ?thesis
    unfolding was_cleared_def Bex_def in_set_prefixes using assms(2) by blast
qed

lemma FetchOne_prefix: "prefix tr (snd (snd (FetchOne E c tr)))"
  by (simp add: FetchOne_def Let_def split_def column_texts_log clear_log Connection_error_log)

lemma FetchRow_prefix: "prefix tr (snd (snd (FetchRow E c tr)))"
  by (simp add: FetchRow_def Let_def split_def column_map_log clear_log Connection_error_log)

lemma Fetch_prefix: "prefix tr (snd (snd (Fetch E r tr)))"
  by (simp add: Fetch_def Let_def split_def column_texts_log clear_log Connection_error_log)

lemma fetch_upto_prefix: "prefix tr (snd (snd (fetch_upto E n c tr)))"
proof (induction n arbitrary: c tr)
  case 0
  show ?case by simp
next
  case (Suc n)
  obtain row e c1 tr1 where f: "FetchOne E c tr = ((row, e), c1, tr1)"
    by (metis prod.exhaust)
  with FetchOne_prefix [of tr E c] have p: "prefix tr tr1"
    by simp
  show ?case
  proof (cases e)
    case None
    with f p Suc [of tr1 c1] show ?thesis
      by (auto simp add: split_def intro: prefix_order.trans)
  next
    case (Some err)
    with f p show ?thesis by simp
  qed
qed

lemma bind_loop_prefix:
  "prefix tr (case bind_loop E self s k ps tr of Bound t \<Rightarrow> t | BindFailed e t \<Rightarrow> t | BindPanics t \<Rightarrow> t)"
proof (induction E self s k ps tr rule: bind_loop.induct)
  case (1 E self s k tr)
  show ?case by simp
next
  case (2 E self s k pa tr)
  show ?case by simp
next
  case (3 E self s k q pa tr)
  show ?case
  proof (cases "returns E tr (Bind_text (stmt_handle s) (of_nat (k + 1)) q) = StatusOk")
    case True
    with 3 show ?thesis
      by (auto dest: append_prefixD)
  next
    case False
    then show ?thesis
      by (simp add: split_def Let_def clear_log Connection_error_log)
  qed
qed

lemma ExecuteClassic_prefix: "prefix tr (snd (ExecuteClassic E self stmt ps tr))"
proof (cases stmt)
  case Other_Statement
  then show ?thesis by (simp add: ExecuteClassic_def)
next
  case (Sqlite3_Statement s)
  have b: "prefix tr (case bind_loop E self s 0 ps (tr @ [Bind_parameter_count (stmt_handle s)]) of
      Bound t \<Rightarrow> t | BindFailed e t \<Rightarrow> t | BindPanics t \<Rightarrow> t)"
    using bind_loop_prefix [of "tr @ [Bind_parameter_count (stmt_handle s)]" E self s 0 ps]
    by (rule append_prefixD)
  show ?thesis
  proof (cases "bind_loop E self s 0 ps (tr @ [Bind_parameter_count (stmt_handle s)])")
    case (Bound t)
    with b have "prefix tr t" by simp
    then obtain u where "t = tr @ u" by (auto simp add: prefix_def)
    with Bound Sqlite3_Statement show ?thesis
      by (simp add: ExecuteClassic_def Let_def split_def clear_log Connection_error_log)
  next
    case (BindFailed e t)
    with b Sqlite3_Statement show ?thesis
      by (simp add: ExecuteClassic_def Let_def)
  next
    case (BindPanics t)
    with b Sqlite3_Statement show ?thesis
      by (simp add: ExecuteClassic_def Let_def)
  qed
qed

lemma ExecuteClassic_more:
  "ExecuteClassic E conn st ps tr = (Returns (Some rs, e), tr') \<Longrightarrow> rs_more rs"
  by (auto simp add: ExecuteClassic_def Let_def split_def
      split: db_Statement.splits bound.splits if_splits)

lemma Execute_ExecuteClassic:
  "Execute E conn st ps tr = (Returns (Some (Iterate cur), e), tr') \<Longrightarrow>
   ExecuteClassic E conn st ps tr = (Returns (cur, None), tr')"
  by (auto simp add: Execute_def split: prod.splits outcome.splits if_splits)

lemma Execute_log: "snd (Execute E conn st ps tr) = snd (ExecuteClassic E conn st ps tr)"
  by (auto simp add: Execute_def split: prod.splits outcome.splits if_splits)

lemma FetchOne_inv:
  "resets_after_done E \<Longrightarrow> cursor_inv E c tr \<Longrightarrow>
   cursor_inv E (fst (snd (FetchOne E c tr))) (snd (snd (FetchOne E c tr)))"
  by (auto simp add: FetchOne_def cursor_inv_def Let_def split_def clear_after_done)

lemma FetchRow_inv:
  "resets_after_done E \<Longrightarrow> cursor_inv E c tr \<Longrightarrow>
   cursor_inv E (fst (snd (FetchRow E c tr))) (snd (snd (FetchRow E c tr)))"
  by (auto simp add: FetchRow_def cursor_inv_def Let_def split_def clear_after_done)

lemma Fetch_inv:
  "resets_after_done E \<Longrightarrow> rset_inv E r tr \<Longrightarrow>
   rset_inv E (fst (snd (Fetch E r tr))) (snd (snd (Fetch E r tr)))"
  by (auto simp add: Fetch_def rset_inv_def Let_def split_def clear_after_done)

lemma fetch_upto_inv:
  "resets_after_done E \<Longrightarrow> cursor_inv E c tr \<Longrightarrow>
   cursor_inv E (fst (snd (fetch_upto E n c tr))) (snd (snd (fetch_upto E n c tr)))"
proof (induction n arbitrary: c tr)
  case 0
  then show ?case by simp
next
  case (Suc n)
  obtain row e c1 tr1 where f: "FetchOne E c tr = ((row, e), c1, tr1)"
    by (metis prod.exhaust)
  with FetchOne_inv [OF Suc.prems] have i: "cursor_inv E c1 tr1"
    by simp
  show ?case
  proof (cases e)
    case None
    with f Suc.IH [OF Suc.prems(1) i] show ?thesis
      by (simp add: split_def)
  next
    case (Some err)
    with f i show ?thesis by simp
  qed
qed

lemma FetchAll_loop_returns:
  assumes "FetchAll_loop E v c tr = Some y"
  shows "\<exists>k rows e. fetch_upto E k c tr = ((rows, Some e), snd y) \<and> fst y = (v @ rows, e)"
proof (rule FetchAll_loop.raw_induct
    [where P = "\<lambda>E v c tr y. \<exists>k rows e. fetch_upto E k c tr = ((rows, Some e), snd y)
                                 \<and> fst y = (v @ rows, e)",
     OF _ assms], goal_cases)
  case (1 loop E v c tr y)
  obtain row e c1 tr1 where f: "FetchOne E c tr = ((row, e), c1, tr1)"
    by (metis prod.exhaust)
  show ?case
  proof (cases e)
    case (Some err)
    with f 1(2) have "fetch_upto E (Suc 0) c tr = (([], Some err), snd y)" "fst y = (v @ [], err)"
      by auto
    then show ?thesis by blast
  next
    case None
    with f 1(2) have "loop E (v @ [row]) c1 tr1 = Some y"
      by simp
    from 1(1) [OF this] obtain k rows e' where
      k: "fetch_upto E k c1 tr1 = ((rows, Some e'), snd y)" "fst y = ((v @ [row]) @ rows, e')"
      by blast
    with f None have "fetch_upto E (Suc k) c tr = ((row # rows, Some e'), snd y)"
      "fst y = (v @ (row # rows), e')"
      by (simp_all add: split_def)
    then show ?thesis by blast
  qed
qed

lemma FetchAll_returns:
  assumes "FetchAll E c tr = Some (r, c', tr')"
  shows "\<exists>k. (c', tr') = snd (fetch_upto E k c tr)"
proof -
  from assms obtain y where y: "FetchAll_loop E [] c tr = Some y" "snd y = (c', tr')"
    by (auto simp add: FetchAll_def split: option.splits)
  from FetchAll_loop_returns [OF y(1)] y(2) show ?thesis
    by (metis snd_conv)
qed

lemma session_inv_mono:
  "prefix tr tr' \<Longrightarrow> session_inv E s tr \<Longrightarrow> session_inv E s tr'"
  by (auto simp add: session_inv_def rset_inv_def cursor_inv_def list_all_iff
      intro: was_cleared_mono)

lemma session_inv_rset:
  assumes "session_inv E s tr" "prefix tr tr'" "rset_inv E r tr'"
  shows "session_inv E (s\<lparr>rsets := (rsets s)[i := r]\<rparr>) tr'"
    and "session_inv E (s\<lparr>rsets := rsets s @ [r]\<rparr>) tr'"
  using session_inv_mono [OF assms(2,1)] assms(3) set_update_subset_insert [of "rsets s" i r]
  by (auto simp add: session_inv_def list_all_iff)

lemma session_inv_cursor:
  assumes "session_inv E s tr" "prefix tr tr'" "cursor_inv E c tr'"
  shows "session_inv E (s\<lparr>cursors := (cursors s)[i := c]\<rparr>) tr'"
  using session_inv_mono [OF assms(2,1)] assms(3) set_update_subset_insert [of "cursors s" i c]
  by (auto simp add: session_inv_def list_all_iff)

lemma session_inv_nth:
  "session_inv E s tr \<Longrightarrow> i < length (rsets s) \<Longrightarrow> rset_inv E (rsets s ! i) tr"
  "session_inv E s tr \<Longrightarrow> j < length (cursors s) \<Longrightarrow> cursor_inv E (cursors s ! j) tr"
  by (simp_all add: session_inv_def list_all_length)

lemma session_call_run_inv:
  assumes r: "resets_after_done E" and i: "session_inv E s tr"
    and run: "session_call_run E call s tr = Some (s', tr')"
  shows "session_inv E s' tr'"
proof (cases call)
  case (Call_ExecuteClassic conn stmt ps)
  have p: "prefix tr (snd (ExecuteClassic E conn stmt ps tr))"
    by (rule ExecuteClassic_prefix)
  obtain o1 t1 where x: "ExecuteClassic E conn stmt ps tr = (o1, t1)"
    by (metis prod.exhaust)
  show ?thesis
  proof (cases o1)
    case Panics
    with x run Call_ExecuteClassic show ?thesis by simp
  next
    case (Returns v)
    obtain cur err where v: "v = (cur, err)" by (metis prod.exhaust)
    show ?thesis
    proof (cases cur)
      case None
      with x Returns v run Call_ExecuteClassic p session_inv_mono [OF _ i, of t1] show ?thesis
        by simp
    next
      case (Some rs)
      with x Returns v have "rs_more rs"
        using ExecuteClassic_more by blast
      then have "rset_inv E rs t1" by (simp add: rset_inv_def)
      with x Returns v Some run Call_ExecuteClassic p session_inv_rset(2) [OF i, of t1 rs] show ?thesis
        by simp
    qed
  qed
next
  case (Call_Execute conn stmt ps)
  have p: "prefix tr (snd (Execute E conn stmt ps tr))"
    unfolding Execute_log by (rule ExecuteClassic_prefix)
  obtain o1 t1 where x: "Execute E conn stmt ps tr = (o1, t1)"
    by (metis prod.exhaust)
  show ?thesis
  proof (cases o1)
    case Panics
    with x run Call_Execute show ?thesis by simp
  next
    case (Returns v)
    obtain ch err where v: "v = (ch, err)" by (metis prod.exhaust)
    show ?thesis
    proof (cases ch)
      case None
      with x Returns v run Call_Execute p session_inv_mono [OF _ i, of t1] show ?thesis
        by simp
    next
      case (Some pr)
      obtain cur where pr: "pr = Iterate cur" by (cases pr)
      show ?thesis
      proof (cases cur)
        case None
        with x Returns v Some pr run Call_Execute show ?thesis by simp
      next
        case (Some rs)
        with x Returns v \<open>ch = Some pr\<close> pr have "ExecuteClassic E conn stmt ps tr = (Returns (Some rs, None), t1)"
          using Execute_ExecuteClassic by blast
        then have "rs_more rs"
          using ExecuteClassic_more by blast
        then have "rset_inv E rs t1" by (simp add: rset_inv_def)
        with x Returns v \<open>ch = Some pr\<close> pr Some run Call_Execute p session_inv_rset(2) [OF i, of t1 rs]
        show ?thesis
          by simp
      qed
    qed
  qed
next
  case (Call_Fetch k)
  show ?thesis
  proof (cases "k < length (rsets s)")
    case True
    from Fetch_inv [OF r session_inv_nth(1) [OF i True]] Fetch_prefix [of tr E "rsets s ! k"]
      session_inv_rset(1) [OF i, of "snd (snd (Fetch E (rsets s ! k) tr))" "fst (snd (Fetch E (rsets s ! k) tr))" k]
      run Call_Fetch True
    show ?thesis
      by (auto simp add: split_def)
  next
    case False
    with run Call_Fetch i show ?thesis by simp
  qed
next
  case (Call_More k)
  with run i show ?thesis by simp
next
  case (Call_rset_Close k)
  with run i show ?thesis by simp
next
  case (Call_FetchOne k)
  show ?thesis
  proof (cases "k < length (cursors s)")
    case True
    from FetchOne_inv [OF r session_inv_nth(2) [OF i True]] FetchOne_prefix [of tr E "cursors s ! k"]
      session_inv_cursor [OF i, of "snd (snd (FetchOne E (cursors s ! k) tr))"
        "fst (snd (FetchOne E (cursors s ! k) tr))" k]
      run Call_FetchOne True
    show ?thesis
      by (auto simp add: split_def)
  next
    case False
    with run Call_FetchOne i show ?thesis by simp
  qed
next
  case (Call_FetchRow k)
  show ?thesis
  proof (cases "k < length (cursors s)")
    case True
    from FetchRow_inv [OF r session_inv_nth(2) [OF i True]] FetchRow_prefix [of tr E "cursors s ! k"]
      session_inv_cursor [OF i, of "snd (snd (FetchRow E (cursors s ! k) tr))"
        "fst (snd (FetchRow E (cursors s ! k) tr))" k]
      run Call_FetchRow True
    show ?thesis
      by (auto simp add: split_def)
  next
    case False
    with run Call_FetchRow i show ?thesis by simp
  qed
next
  case (Call_FetchMany k n)
  show ?thesis
  proof (cases "k < length (cursors s)")
    case True
    show ?thesis
    proof (cases "0 \<le> n")
      case nn: True
      from fetch_upto_inv [OF r session_inv_nth(2) [OF i True], of "nat n"]
        fetch_upto_prefix [of tr E "nat n" "cursors s ! k"]
        session_inv_cursor [OF i, of "snd (snd (fetch_upto E (nat n) (cursors s ! k) tr))"
          "fst (snd (fetch_upto E (nat n) (cursors s ! k) tr))" k]
        run Call_FetchMany True FetchMany_fetch_upto [OF nn, of E "cursors s ! k" tr]
      show ?thesis
        by (auto simp add: split_def)
    next
      case False
      with run Call_FetchMany True show ?thesis
        by (simp add: FetchMany_def)
    qed
  next
    case False
    with run Call_FetchMany i show ?thesis by simp
  qed
next
  case (Call_FetchAll k)
  show ?thesis
  proof (cases "k < length (cursors s)")
    case True
    with run Call_FetchAll obtain res c1 where
      fa: "FetchAll E (cursors s ! k) tr = Some (res, c1, tr')" and s': "s' = s\<lparr>cursors := (cursors s)[k := c1]\<rparr>"
      by (auto split: option.splits)
    from FetchAll_returns [OF fa] obtain m where m: "(c1, tr') = snd (fetch_upto E m (cursors s ! k) tr)"
      by blast
    from fetch_upto_inv [OF r session_inv_nth(2) [OF i True], of m]
      fetch_upto_prefix [of tr E m "cursors s ! k"] m
    have "cursor_inv E c1 tr'" "prefix tr tr'"
      by (metis fst_conv snd_conv)+
    with session_inv_cursor [OF i, of tr' c1 k] s' show ?thesis
      by simp
  next
    case False
    with run Call_FetchAll i show ?thesis by simp
  qed
next
  case (Call_MoreResults k)
  with run i show ?thesis by simp
next
  case (Call_Close k)
  with run i show ?thesis by simp
qed

lemma session_calls_run_inv:
  "resets_after_done E \<Longrightarrow> session_inv E s tr \<Longrightarrow>
   session_calls_run E calls s tr = Some (s', tr') \<Longrightarrow> session_inv E s' tr'"
proof (induction calls arbitrary: s tr)
  case Nil
  then show ?case by simp
next
  case (Cons call calls)
  from Cons.prems(3) obtain s1 tr1 where
    s: "session_call_run E call s tr = Some (s1, tr1)" "session_calls_run E calls s1 tr1 = Some (s', tr')"
    by (auto split: option.splits)
  from Cons.IH [OF Cons.prems(1) session_call_run_inv [OF Cons.prems(1,2) s(1)] s(2)] show ?case .
qed

lemma fetch_upto_exhausted:
  "\<not> result c \<Longrightarrow>
   fetch_upto E n c tr =
     (([], if n = 0 then None else Some (DriverError ''FetchOne: No results to fetch!'')), c, tr)"
  by (cases n) (simp_all add: FetchOne_def)

lemma session_call_run_exhausted:
  assumes "on_exhausted s call"
  shows "session_call_run E call s tr =
     (case call of
        Call_FetchMany i n \<Rightarrow> if n < 0 then None else Some (s, tr)
      | _ \<Rightarrow> Some (s, tr))"
proof (cases call)
  case (Call_FetchMany k n)
  with assms have e: "\<not> result (cursors s ! k)" and k: "k < length (cursors s)"
    by simp_all
  show ?thesis
  proof (cases "0 \<le> n")
    case True
    with Call_FetchMany k FetchMany_fetch_upto [OF True, of E "cursors s ! k" tr]
      fetch_upto_exhausted [OF e, of E "nat n" tr]
    show ?thesis
      by simp
  next
    case False
    with Call_FetchMany k show ?thesis
      by (simp add: FetchMany_def)
  qed
next
  case (Call_FetchAll k)
  with assms have e: "\<not> result (cursors s ! k)" and k: "k < length (cursors s)"
    by simp_all
  from FetchAll_fetch_upto [of E "Suc 0" "cursors s ! k" tr "[]" _ "cursors s ! k" tr]
    fetch_upto_exhausted [OF e, of E "Suc 0" tr]
  have "FetchAll E (cursors s ! k) tr =
      Some (partial_success ([], Some (DriverError ''FetchOne: No results to fetch!'')), cursors s ! k, tr)"
    by simp
  with Call_FetchAll k show ?thesis
    by simp
qed (use assms in \<open>simp_all add: FetchOne_def FetchRow_def Fetch_def\<close>)

lemma scripted_resets:
  "(\<And>h. f (Reset h) = []) \<Longrightarrow> resets_after_done (scripted f)"
  by (simp add: resets_after_done_def)

lemma column_map_one:
  "column_map E h 0 1 m tr =
     (m(returns_text E (tr @ [Column_text h 0]) (Column_name h 0) \<mapsto> returns_text E tr (Column_text h 0)),
      tr @ [Column_text h 0, Column_name h 0])"
  by (simp add: column_map.simps [of E h 0 1] column_map.simps [of E h 1 1])

lemma iterate_loop_busy:
  assumes "iterate_loop E r sent tr = Some y"
  shows "\<not> (E = busy_engine \<and> rs_more r)"
proof (rule iterate_loop.raw_induct
    [where P = "\<lambda>E r sent tr y. \<not> (E = busy_engine \<and> rs_more r)", OF _ assms], goal_cases)
  case (1 loop E r sent tr y)
  show ?case
  proof
    assume a: "E = busy_engine \<and> rs_more r"
    then have "fst (snd (Fetch E r tr)) = r"
      by (simp add: Fetch_def Let_def split_def busy_engine_def StatusDone_def)
    with a 1(2) have "loop E r (sent @ [fst (Fetch E r tr)]) (snd (snd (Fetch E r tr))) = Some y"
      by (simp add: More_def split_def)
    from 1(1) [OF this] a show False
      by simp
  qed
qed

lemma iterate_busy: "rs_more r \<Longrightarrow> iterate busy_engine (Some r) tr = None"
  using iterate_loop_busy [of busy_engine r "[]" tr]
  by (cases "iterate_loop busy_engine r [] tr") (simp_all add: iterate_def)

lemma FetchAll_exhausted:
  assumes "\<not> result c"
  shows "FetchAll E c tr = Some (([], Some (DriverError ''FetchOne: No results to fetch!'')), c, tr)"
  using FetchAll_fetch_upto [of E "Suc 0" c tr "[]" _ c tr] fetch_upto_exhausted [OF assms, of E "Suc 0" tr]
  by (simp add: partial_success_def)

lemma fetch_upto_no_rows:
  "fst (fst (fetch_upto E (Suc n) c tr)) = [] \<Longrightarrow> snd (fst (fetch_upto E (Suc n) c tr)) \<noteq> None"
  by (auto simp add: split_def split: prod.splits option.splits)

lemma draft_open_flags:
  "draft_parseConnInfo info = Returns (name, flags, vfs, None) \<Longrightarrow>
   open_flags (drop (length tr) (snd (draft_open E info tr))) = [word_of_int flags]"
  by (simp add: draft_open_def draft_Connection_error_def split_def Let_def open_flags_append)

section \<open>What the driver does on the paths the claims describe\<close>

text \<open>
  The first step of ExecuteClassic on a statement of this driver, the number of
  parameters matching and every bind accepted (the loop ends in Bound): when the step
  returns StatusRow, a result set on this statement and connection with more = true is
  returned, with no error, and nothing is called after the step; when it returns
  StatusDone, no result set and no error are returned, and after the step
  Statement.clear runs: sqlite3_reset, then sqlite3_clear_bindings when the reset
  returned StatusOk.
\<close>

lemma ExecuteClassic_first_step:
  assumes "int (length ps) = sint (returns E tr (Bind_parameter_count (stmt_handle s)))"
    and "bind_loop E self s 0 ps (tr @ [Bind_parameter_count (stmt_handle s)]) = Bound trb"
  shows "(returns E trb (Step (stmt_handle s)) = StatusRow \<longrightarrow>
            ExecuteClassic E self (Sqlite3_Statement s) ps tr =
              (Returns (Some \<lparr>rs_statement = s, rs_connection = self, rs_more = True\<rparr>, None),
               trb @ [Step (stmt_handle s)]))
       \<and> (returns E trb (Step (stmt_handle s)) = StatusDone \<longrightarrow>
            ExecuteClassic E self (Sqlite3_Statement s) ps tr =
              (Returns (None, None),
               trb @ [Step (stmt_handle s), Reset (stmt_handle s)] @
                 (if returns E (trb @ [Step (stmt_handle s)]) (Reset (stmt_handle s)) = StatusOk
                  then Clear_bindings (stmt_handle s) #
                    (if returns E (trb @ [Step (stmt_handle s), Reset (stmt_handle s)])
                          (Clear_bindings (stmt_handle s)) = StatusOk
                     then []
                     else [Errcode (conn_handle (stmt_connection s)),
                           Errmsg (conn_handle (stmt_connection s))])
                  else [Errcode (conn_handle (stmt_connection s)),
                        Errmsg (conn_handle (stmt_connection s))])))"
  using assms
  by (simp add: ExecuteClassic_def Let_def split_def clear_log StatusRow_def StatusDone_def)

text \<open>
  The same first step seen through Execute: on StatusRow the channel is fed from the
  result set that ExecuteClassic made; on StatusDone, for every engine, the goroutine is
  started on no result set and panics.
\<close>

lemma Execute_first_step:
  assumes "int (length ps) = sint (returns E tr (Bind_parameter_count (stmt_handle s)))"
    and "bind_loop E self s 0 ps (tr @ [Bind_parameter_count (stmt_handle s)]) = Bound trb"
  shows "(returns E trb (Step (stmt_handle s)) = StatusRow \<longrightarrow>
            Execute E self (Sqlite3_Statement s) ps tr =
              (Returns (Some (Iterate (Some \<lparr>rs_statement = s, rs_connection = self, rs_more = True\<rparr>)),
                        None),
               trb @ [Step (stmt_handle s)]))
       \<and> (returns E trb (Step (stmt_handle s)) = StatusDone \<longrightarrow>
            fst (Execute E self (Sqlite3_Statement s) ps tr) = Returns (Some (Iterate None), None)
            \<and> iterate E None (snd (Execute E self (Sqlite3_Statement s) ps tr)) =
                Some (Panics, snd (Execute E self (Sqlite3_Statement s) ps tr)))"
  using ExecuteClassic_first_step [OF assms]
  by (simp add: Execute_def iterate_def)

text \<open>
  A fetch whose step returns a status other than StatusRow and StatusDone, for every
  engine: the error of the connection is returned with the row just read, the cursor
  or result set is left as it was, and the only calls after the step are the two that
  read the error.
\<close>

lemma fetch_step_error:
  assumes "h = stmt_handle (statement self)" and "n = sint (returns E tr (Column_count h))"
    and "texts = map (\<lambda>j. Column_text h (word_of_int j)) [0..n - 1]"
    and "names = concat (map (\<lambda>j. [Column_text h (word_of_int j), Column_name h (word_of_int j)]) [0..n - 1])"
    and "ch = conn_handle (connection self)"
    and "hr = stmt_handle (rs_statement rs)" and "nr = sint (returns E tr (Column_count hr))"
    and "textsr = map (\<lambda>j. Column_text hr (word_of_int j)) [0..nr - 1]"
    and "chr = conn_handle (rs_connection rs)"
  shows
   "(result self \<and> 0 < n
       \<and> returns E (tr @ Column_count h # texts) (Step h) \<noteq> StatusRow
       \<and> returns E (tr @ Column_count h # texts) (Step h) \<noteq> StatusDone \<longrightarrow>
     FetchOne E self tr =
       ((fst (column_texts E h 0 n (tr @ [Column_count h])),
         Some (fst (Connection_error E (connection self) (tr @ Column_count h # texts @ [Step h])))),
        self,
        tr @ Column_count h # texts @ [Step h, Errcode ch, Errmsg ch]))
    \<and> (result self \<and> 0 < n
       \<and> returns E (tr @ Column_count h # names) (Step h) \<noteq> StatusRow
       \<and> returns E (tr @ Column_count h # names) (Step h) \<noteq> StatusDone \<longrightarrow>
     FetchRow E self tr =
       ((fst (column_map E h 0 n Map.empty (tr @ [Column_count h])),
         Some (fst (Connection_error E (connection self) (tr @ Column_count h # names @ [Step h])))),
        self,
        tr @ Column_count h # names @ [Step h, Errcode ch, Errmsg ch]))
    \<and> (rs_more rs \<and> 0 < nr
       \<and> returns E (tr @ Column_count hr # textsr) (Step hr) \<noteq> StatusRow
       \<and> returns E (tr @ Column_count hr # textsr) (Step hr) \<noteq> StatusDone \<longrightarrow>
     Fetch E rs tr =
       (\<lparr>res_data = fst (column_texts E hr 0 nr (tr @ [Column_count hr])),
         res_error = Some (fst (Connection_error E (rs_connection rs)
                                 (tr @ Column_count hr # textsr @ [Step hr])))\<rparr>,
        rs,
        tr @ Column_count hr # textsr @ [Step hr, Errcode chr, Errmsg chr]))"
  unfolding assms
  by (simp add: FetchOne_def FetchRow_def Fetch_def Let_def split_def
      column_texts_log column_map_log Connection_error_log)

text \<open>
  FetchMany with a count that is not negative calls FetchOne up to count times or until
  it returns an error, and returns the rows obtained and no error when there is at
  least one row, no row and the error of the last FetchOne otherwise; with a count of
  one or more, no row means that there is an error. FetchAll does the same without a
  bound: it returns as soon as a call of FetchOne returns an error, and does not return
  when none ever does. The rows of up to n calls are at most n.
\<close>

lemma FetchMany_FetchAll_partial_success:
  "(0 \<le> count \<longrightarrow>
      FetchMany E count self tr =
        (case fetch_upto E (nat count) self tr of
           (r, self', tr') \<Rightarrow> (Returns (partial_success r), self', tr')))
   \<and> (snd (fst (fetch_upto E k self tr)) \<noteq> None \<longrightarrow>
      FetchAll E self tr =
        (case fetch_upto E k self tr of
           (r, self', tr') \<Rightarrow> Some (partial_success r, self', tr')))
   \<and> ((\<forall>j. snd (fst (fetch_upto E j self tr)) = None) \<longrightarrow> FetchAll E self tr = None)
   \<and> length (fst (fst (fetch_upto E n self tr))) \<le> n
   \<and> (fst (fst (fetch_upto E (Suc n) self tr)) = [] \<longrightarrow>
        snd (fst (fetch_upto E (Suc n) self tr)) \<noteq> None)"
proof -
  have all: "FetchAll E self tr =
        (case fetch_upto E k self tr of
           (r, self', tr') \<Rightarrow> Some (partial_success r, self', tr'))"
    if a: "snd (fst (fetch_upto E k self tr)) \<noteq> None"
  proof -
    obtain rows e self' tr' where u: "fetch_upto E k self tr = ((rows, e), self', tr')"
      by (metis prod.exhaust)
    with a obtain err where "e = Some err" by auto
    with u FetchAll_fetch_upto [of E k self tr rows err self' tr'] show ?thesis
      by simp
  qed
  have never: "FetchAll E self tr = None"
    if a: "\<forall>j. snd (fst (fetch_upto E j self tr)) = None"
  proof (cases "FetchAll_loop E [] self tr")
    case None
    then show ?thesis by (simp add: FetchAll_def)
  next
    case (Some y)
    from FetchAll_loop_returns [OF Some] a show ?thesis
      by (metis fst_conv option.distinct(1) snd_conv)
  qed
  show ?thesis
    using all never FetchMany_fetch_upto [of count E self tr] fetch_upto_length [of E n self tr]
      fetch_upto_no_rows [of E n self tr]
    by blast
qed

lemma FetchMany_three_rows:
  "FetchMany (scripted ((\<lambda>c. [])(Column_count 1 := [1, 1, 1], Step 1 := [100, 100, 101]))) 5 cursor1 [] =
     (Returns ([[''text''], [''text''], [''text'']], None), cursor1\<lparr>result := False\<rparr>,
      [Column_count 1, Column_text 1 0, Step 1, Column_count 1, Column_text 1 0, Step 1,
       Column_count 1, Column_text 1 0, Step 1, Reset 1, Clear_bindings 1])
   \<and> FetchAll (scripted ((\<lambda>c. [])(Column_count 1 := [1, 1, 1], Step 1 := [100, 100, 101]))) cursor1 [] =
     Some (([[''text''], [''text''], [''text'']], None), cursor1\<lparr>result := False\<rparr>,
      [Column_count 1, Column_text 1 0, Step 1, Column_count 1, Column_text 1 0, Step 1,
       Column_count 1, Column_text 1 0, Step 1, Reset 1, Clear_bindings 1])
   \<and> FetchMany (scripted (\<lambda>c. [])) 5 (cursor1\<lparr>result := False\<rparr>) [] =
     (Returns ([], Some (DriverError ''FetchOne: No results to fetch!'')), cursor1\<lparr>result := False\<rparr>, [])"
proof -
  have n5: "nat 5 = Suc (Suc (Suc (Suc (Suc 0))))"
    by simp
  have z: "fetch_upto (scripted (\<lambda>c. [])) (Suc n) (cursor1\<lparr>result := False\<rparr>) [] =
      (([], Some (DriverError ''FetchOne: No results to fetch!'')), cursor1\<lparr>result := False\<rparr>, [])" for n
    by (simp add: FetchOne_def cursor1_def)
  show ?thesis
    using
      FetchMany_FetchAll_partial_success [of 5
        "scripted ((\<lambda>c. [])(Column_count 1 := [1, 1, 1], Step 1 := [100, 100, 101]))" cursor1 "[]"
        "Suc (Suc (Suc (Suc 0)))" 0]
      FetchMany_FetchAll_partial_success [of 5 "scripted (\<lambda>c. [])" "cursor1\<lparr>result := False\<rparr>" "[]" 0 0]
    unfolding n5 fetch_upto_three_rows z
    by (simp add: partial_success_def)
qed

text \<open>
  Every sqlite3_open_v2 call made by the open that takes a connection string passes
  flags with the bit OpenNoMutex (0x8000) cleared and the bit OpenFullMutex (0x10000)
  set, whatever flags the connection string gave; and when the connection string
  parses, that call is made, once, with the flags parsed, masked and converted to a
  C int.
\<close>

lemma open_forces_full_mutex:
  "(\<forall>f \<in> set (open_flags (drop (length tr) (snd (open L E url tr)))).
      f AND 0x8000 = 0 \<and> f AND 0x10000 = 0x10000)
   \<and> (snd (snd (snd (parseConnInfo L url))) = None \<longrightarrow>
      open_flags (drop (length tr) (snd (open L E url tr))) =
        [word_of_int ((fst (snd (parseConnInfo L url)) AND NOT OpenNoMutex) OR OpenFullMutex)])"
proof (cases "snd (snd (snd (parseConnInfo L url))) = None")
  case True
  then show ?thesis
    using open_flags_of_open [OF True, of tr E] mutex_bits by simp
next
  case False
  then have "open L E url tr = ((None, snd (snd (snd (parseConnInfo L url)))), tr)"
    by (rule open_parse_failed)
  with False show ?thesis
    by simp
qed

lemma open_forces_full_mutex_example:
  "open_flags (snd (open library1 (scripted (\<lambda>c. [])) ''sqlite3://test.db?flags=32768'' [])) = [0x10000]
   \<and> (0x10000 :: cint) AND 0x8000 = 0 \<and> (0x10000 :: cint) AND 0x10000 = 0x10000"
  using open_forces_full_mutex [of "[]" library1 "scripted (\<lambda>c. [])" "''sqlite3://test.db?flags=32768''"]
  by (simp add: parse_library1 flags_library1)

text \<open>An example of a session, and the sequence that re-executes a statement.\<close>

lemma session_calls_run_example:
  "session_calls_run
     (scripted ((\<lambda>c. [])(Step 2 := [100, 101], Column_count 2 := [1], Column_count 1 := [1], Step 1 := [101])))
     [Call_ExecuteClassic conn1 (Sqlite3_Statement stmt2) [], Call_More 0, Call_Fetch 0,
      Call_FetchOne 0, Call_FetchMany 0 5, Call_FetchAll 0, Call_Fetch 0, Call_Close 0]
     \<lparr>rsets = [], cursors = [cursor1]\<rparr> [] =
   Some (\<lparr>rsets = [rset2\<lparr>rs_more := False\<rparr>], cursors = [cursor1\<lparr>result := False\<rparr>]\<rparr>,
     [Bind_parameter_count 2, Step 2, Column_count 2, Column_text 2 0, Step 2, Reset 2, Clear_bindings 2,
      Column_count 1, Column_text 1 0, Step 1, Reset 1, Clear_bindings 1])"
  by (simp add: ExecuteClassic_def Fetch_def FetchOne_def Let_def column_texts_one clear_def
      FetchMany_fetch_upto fetch_upto_exhausted FetchAll_exhausted partial_success_def
      example_defs example_defs2)

section \<open>The claims\<close>

text \<open>
  C1. ExecuteClassic does what the claim says of the first step (lemma
  ExecuteClassic_first_step). Execute does on a row, and does not when the first step
  reports completion, for example on an INSERT: ExecuteClassic has then reset the
  statement, cleared its bindings and returned neither a result set nor an error, and
  Execute, which only looks at the error, starts iterate on the missing result set and
  returns the channel to the caller; iterate panics at its first rset.More().
\<close>

theorem Execute_done_starts_iterate_on_nil:
  "Execute (scripted ((\<lambda>c. [])(Step 1 := [100]))) conn1 (Sqlite3_Statement stmt1) [] [] =
     (Returns (Some (Iterate (Some rset1)), None), [Bind_parameter_count 1, Step 1])
   \<and> returns (scripted ((\<lambda>c. [])(Step 1 := [101]))) [Bind_parameter_count 1] (Step 1) = StatusDone
   \<and> ExecuteClassic (scripted ((\<lambda>c. [])(Step 1 := [101]))) conn1 (Sqlite3_Statement stmt1) [] [] =
     (Returns (None, None), [Bind_parameter_count 1, Step 1, Reset 1, Clear_bindings 1])
   \<and> Execute (scripted ((\<lambda>c. [])(Step 1 := [101]))) conn1 (Sqlite3_Statement stmt1) [] [] =
     (Returns (Some (Iterate None), None), [Bind_parameter_count 1, Step 1, Reset 1, Clear_bindings 1])
   \<and> iterate (scripted ((\<lambda>c. [])(Step 1 := [101]))) None
       [Bind_parameter_count 1, Step 1, Reset 1, Clear_bindings 1] =
     Some (Panics, [Bind_parameter_count 1, Step 1, Reset 1, Clear_bindings 1])"
  by (simp add: Execute_def ExecuteClassic_def iterate_def Let_def clear_def example_defs)

text \<open>
  C2, as amended. The engine answers the reset that follows a completed step with
  success, as SQLite does. Along every sequence of ExecuteClassic, Execute and fetch
  calls (Fetch, More and Close on the result sets made so far; FetchOne, FetchRow,
  FetchMany, FetchAll, MoreResults and Close on the cursors, which start with their flag
  true), for every result set and every cursor: the flag is true, or a step on its
  statement returned StatusDone and was followed at once by sqlite3_reset and
  sqlite3_clear_bindings on that statement. A call on a result set or a cursor whose
  flag is false leaves the session and the log as they are (FetchMany with a negative
  count panics before it reaches the cursor), so the engine is not advanced.
\<close>

theorem exhausted_statement_was_cleared:
  assumes "resets_after_done E"
  shows "(list_all result cs
          \<and> session_calls_run E calls \<lparr>rsets = [], cursors = cs\<rparr> tr = Some (s', tr') \<longrightarrow>
            (\<forall>r \<in> set (rsets s'). rs_more r \<or> was_cleared E (rs_statement r) tr')
            \<and> (\<forall>c \<in> set (cursors s'). result c \<or> was_cleared E (statement c) tr'))
       \<and> (on_exhausted s call \<longrightarrow>
            session_call_run E call s tr =
              (case call of
                 Call_FetchMany i n \<Rightarrow> if n < 0 then None else Some (s, tr)
               | _ \<Rightarrow> Some (s, tr)))"
proof -
  have "session_inv E s' tr'"
    if a: "list_all result cs"
      and b: "session_calls_run E calls \<lparr>rsets = [], cursors = cs\<rparr> tr = Some (s', tr')"
  proof -
    from a have "session_inv E \<lparr>rsets = [], cursors = cs\<rparr> tr"
      by (simp add: session_inv_def cursor_inv_def list_all_iff)
    from session_calls_run_inv [OF assms this b] show ?thesis .
  qed
  then show ?thesis
    using session_call_run_exhausted [of s call E tr]
    by (auto simp add: session_inv_def rset_inv_def cursor_inv_def list_all_iff)
qed

theorem exhausted_statement_was_cleared_example:
  "resets_after_done
     (scripted ((\<lambda>c. [])(Step 2 := [100, 101], Column_count 2 := [1], Column_count 1 := [1], Step 1 := [101])))
   \<and> session_calls_run
       (scripted ((\<lambda>c. [])(Step 2 := [100, 101], Column_count 2 := [1], Column_count 1 := [1], Step 1 := [101])))
       [Call_ExecuteClassic conn1 (Sqlite3_Statement stmt2) [], Call_More 0, Call_Fetch 0,
        Call_FetchOne 0, Call_FetchMany 0 5, Call_FetchAll 0, Call_Fetch 0, Call_Close 0]
       \<lparr>rsets = [], cursors = [cursor1]\<rparr> [] =
     Some (\<lparr>rsets = [rset2\<lparr>rs_more := False\<rparr>], cursors = [cursor1\<lparr>result := False\<rparr>]\<rparr>,
       [Bind_parameter_count 2, Step 2, Column_count 2, Column_text 2 0, Step 2, Reset 2, Clear_bindings 2,
        Column_count 1, Column_text 1 0, Step 1, Reset 1, Clear_bindings 1])
   \<and> was_cleared
       (scripted ((\<lambda>c. [])(Step 2 := [100, 101], Column_count 2 := [1], Column_count 1 := [1], Step 1 := [101])))
       stmt2
       [Bind_parameter_count 2, Step 2, Column_count 2, Column_text 2 0, Step 2, Reset 2, Clear_bindings 2,
        Column_count 1, Column_text 1 0, Step 1, Reset 1, Clear_bindings 1]
   \<and> was_cleared
       (scripted ((\<lambda>c. [])(Step 2 := [100, 101], Column_count 2 := [1], Column_count 1 := [1], Step 1 := [101])))
       stmt1
       [Bind_parameter_count 2, Step 2, Column_count 2, Column_text 2 0, Step 2, Reset 2, Clear_bindings 2,
        Column_count 1, Column_text 1 0, Step 1, Reset 1, Clear_bindings 1]
   \<and> session_call_run
       (scripted ((\<lambda>c. [])(Step 2 := [100, 101], Column_count 2 := [1], Column_count 1 := [1], Step 1 := [101])))
       (Call_FetchOne 0)
       \<lparr>rsets = [rset2\<lparr>rs_more := False\<rparr>], cursors = [cursor1\<lparr>result := False\<rparr>]\<rparr>
       [Bind_parameter_count 2, Step 2, Column_count 2, Column_text 2 0, Step 2, Reset 2, Clear_bindings 2,
        Column_count 1, Column_text 1 0, Step 1, Reset 1, Clear_bindings 1] =
     Some (\<lparr>rsets = [rset2\<lparr>rs_more := False\<rparr>], cursors = [cursor1\<lparr>result := False\<rparr>]\<rparr>,
       [Bind_parameter_count 2, Step 2, Column_count 2, Column_text 2 0, Step 2, Reset 2, Clear_bindings 2,
        Column_count 1, Column_text 1 0, Step 1, Reset 1, Clear_bindings 1])"
proof -
  have r: "resets_after_done
     (scripted ((\<lambda>c. [])(Step 2 := [100, 101], Column_count 2 := [1], Column_count 1 := [1], Step 1 := [101])))"
    by (rule scripted_resets) simp
  have c: "list_all result [cursor1]"
    by (simp add: cursor1_def)
  have e: "on_exhausted \<lparr>rsets = [rset2\<lparr>rs_more := False\<rparr>], cursors = [cursor1\<lparr>result := False\<rparr>]\<rparr>
      (Call_FetchOne 0)"
    by simp
  note t = exhausted_statement_was_cleared [OF r, of "[cursor1]"
      "[Call_ExecuteClassic conn1 (Sqlite3_Statement stmt2) [], Call_More 0, Call_Fetch 0,
        Call_FetchOne 0, Call_FetchMany 0 5, Call_FetchAll 0, Call_Fetch 0, Call_Close 0]" "[]"
      "\<lparr>rsets = [rset2\<lparr>rs_more := False\<rparr>], cursors = [cursor1\<lparr>result := False\<rparr>]\<rparr>"
      "[Bind_parameter_count 2, Step 2, Column_count 2, Column_text 2 0, Step 2, Reset 2, Clear_bindings 2,
        Column_count 1, Column_text 1 0, Step 1, Reset 1, Clear_bindings 1]"
      "\<lparr>rsets = [rset2\<lparr>rs_more := False\<rparr>], cursors = [cursor1\<lparr>result := False\<rparr>]\<rparr>"
      "Call_FetchOne 0"]
  note u = exhausted_statement_was_cleared [OF r,
      where cs = "[]" and calls = "[]"
        and s' = "\<lparr>rsets = [], cursors = []\<rparr>"
        and s = "\<lparr>rsets = [rset2\<lparr>rs_more := False\<rparr>], cursors = [cursor1\<lparr>result := False\<rparr>]\<rparr>"
        and call = "Call_FetchOne 0"
        and tr = "[Bind_parameter_count 2, Step 2, Column_count 2, Column_text 2 0, Step 2, Reset 2,
          Clear_bindings 2, Column_count 1, Column_text 1 0, Step 1, Reset 1, Clear_bindings 1]"
        and tr' = "[Bind_parameter_count 2, Step 2, Column_count 2, Column_text 2 0, Step 2, Reset 2,
          Clear_bindings 2, Column_count 1, Column_text 1 0, Step 1, Reset 1, Clear_bindings 1]"]
  from t u r c e session_calls_run_example show ?thesis
    by (simp add: rset2_def cursor1_def)
qed

text \<open>
  The claim as worded fails without any failure of the engine: a statement is
  executed, its result set is exhausted by one Fetch, which resets the statement and
  clears its bindings, and the statement is executed again. The flag of the first
  result set is false, and the statement is in the middle of its second execution:
  since its last step it was neither reset nor were its bindings cleared.
\<close>

theorem exhausted_then_executed_again:
  "resets_after_done (scripted ((\<lambda>c. [])(Step 1 := [100, 101, 100], Column_count 1 := [1])))
   \<and> session_calls_run (scripted ((\<lambda>c. [])(Step 1 := [100, 101, 100], Column_count 1 := [1])))
       [Call_ExecuteClassic conn1 (Sqlite3_Statement stmt1) [], Call_Fetch 0,
        Call_ExecuteClassic conn1 (Sqlite3_Statement stmt1) []]
       \<lparr>rsets = [], cursors = []\<rparr> [] =
     Some (\<lparr>rsets = [rset1\<lparr>rs_more := False\<rparr>, rset1], cursors = []\<rparr>,
       [Bind_parameter_count 1, Step 1, Column_count 1, Column_text 1 0, Step 1, Reset 1, Clear_bindings 1,
        Bind_parameter_count 1, Step 1])
   \<and> \<not> rs_more (rset1\<lparr>rs_more := False\<rparr>)
   \<and> \<not> reset_and_unbound (rs_statement (rset1\<lparr>rs_more := False\<rparr>))
       [Bind_parameter_count 1, Step 1, Column_count 1, Column_text 1 0, Step 1, Reset 1, Clear_bindings 1,
        Bind_parameter_count 1, Step 1]"
proof -
  have r: "resets_after_done (scripted ((\<lambda>c. [])(Step 1 := [100, 101, 100], Column_count 1 := [1])))"
    by (rule scripted_resets) simp
  show ?thesis
    using r
    by (simp add: ExecuteClassic_def Fetch_def Let_def column_texts_one clear_def example_defs
        reset_and_unbound_def since_last_step_def)
qed

text \<open>
  C3. A fetch whose step returns an error status hands the error to the caller, but
  does not reset the statement, whereas ExecuteClassic after the same step does ("clean
  up after error or done"): FetchOne, FetchRow and Fetch return the error with the row,
  make no call after the two that read the error, and leave the flag true. With the
  flag still true, the loop of iterate does not end while the step keeps failing.
\<close>

theorem fetch_step_error_no_reset:
  "FetchOne (scripted ((\<lambda>c. [])(Column_count 1 := [1], Step 1 := [1], Errcode 1 := [1]))) cursor1 [] =
      (([''text''], Some (SystemError 1 1 ''text'')), cursor1,
       [Column_count 1, Column_text 1 0, Step 1, Errcode 1, Errmsg 1])
   \<and> FetchRow (scripted ((\<lambda>c. [])(Column_count 1 := [1], Step 1 := [1], Errcode 1 := [1]))) cursor1 [] =
      (([''text'' \<mapsto> ''text''], Some (SystemError 1 1 ''text'')), cursor1,
       [Column_count 1, Column_text 1 0, Column_name 1 0, Step 1, Errcode 1, Errmsg 1])
   \<and> Fetch (scripted ((\<lambda>c. [])(Column_count 1 := [1], Step 1 := [1], Errcode 1 := [1]))) rset1 [] =
      (\<lparr>res_data = [''text''], res_error = Some (SystemError 1 1 ''text'')\<rparr>, rset1,
       [Column_count 1, Column_text 1 0, Step 1, Errcode 1, Errmsg 1])
   \<and> result cursor1 \<and> rs_more rset1
   \<and> Reset 1 \<notin> set [Column_count 1, Column_text 1 0, Step 1, Errcode 1, Errmsg 1]
   \<and> Reset 1 \<notin> set [Column_count 1, Column_text 1 0, Column_name 1 0, Step 1, Errcode 1, Errmsg 1]
   \<and> ExecuteClassic (scripted ((\<lambda>c. [])(Step 1 := [1], Errcode 1 := [1]))) conn1
        (Sqlite3_Statement stmt1) [] [] =
      (Returns (None, Some (SystemError 1 1 ''text'')),
       [Bind_parameter_count 1, Step 1, Errcode 1, Errmsg 1, Reset 1, Clear_bindings 1])
   \<and> iterate busy_engine (Some rset1) [] = None"
proof -
  have "rs_more rset1"
    by (simp add: rset1_def)
  from iterate_busy [OF this, of "[]"] show ?thesis
    by (simp add: FetchOne_def FetchRow_def Fetch_def ExecuteClassic_def Let_def column_texts_one
        column_map_one Connection_error_def clear_def example_defs)
qed

text \<open>
  C4: FetchOne on a cursor whose flag is false returns a driver error and no row, and
  makes no call to the engine (the log is unchanged).
\<close>

theorem FetchOne_exhausted:
  "\<not> result self \<Longrightarrow>
   FetchOne E self tr = (([], Some (DriverError ''FetchOne: No results to fetch!'')), self, tr)"
  by (simp add: FetchOne_def)

theorem FetchOne_exhausted_example:
  "FetchOne (scripted (\<lambda>c. [])) (cursor1\<lparr>result := False\<rparr>) [Step 1, Reset 1, Clear_bindings 1] =
     (([], Some (DriverError ''FetchOne: No results to fetch!'')), cursor1\<lparr>result := False\<rparr>,
      [Step 1, Reset 1, Clear_bindings 1])"
  using FetchOne_exhausted [of "cursor1\<lparr>result := False\<rparr>" "scripted (\<lambda>c. [])"
      "[Step 1, Reset 1, Clear_bindings 1]"]
  by (simp add: cursor1_def)

text \<open>
  C5. FetchMany with a count of zero makes no call to FetchOne and returns no row and
  no error, against the last clause of the claim and the comment of the function ("If
  we get no results at all, an error will be returned"); with a negative count it
  panics when it makes the slice. For every count of one or more, and for FetchAll, the
  code does as the claim says (lemma FetchMany_FetchAll_partial_success).
\<close>

theorem FetchMany_zero_no_rows_no_error:
  "FetchMany E 0 self tr = (Returns ([], None), self, tr)
   \<and> FetchMany E (- 1) self tr = (Panics, self, tr)"
  by (simp add: FetchMany_def FetchMany_loop.simps [of E 0])

text \<open>
  C6: when the number of parameters differs from the number of slots the engine
  reports for the statement, ExecuteClassic returns a driver error and no result set;
  the only call made is the one that asks for the number of slots, so nothing is bound.
\<close>

theorem ExecuteClassic_parameter_count_mismatch:
  "int (length ps) \<noteq> sint (returns E tr (Bind_parameter_count (stmt_handle s))) \<Longrightarrow>
   ExecuteClassic E self (Sqlite3_Statement s) ps tr =
     (Returns (None, Some (DriverError
        (''Execute: Number of parameters doesn'' @ [CHR 0x27] @ ''t match!''))),
      tr @ [Bind_parameter_count (stmt_handle s)])"
  by (simp add: ExecuteClassic_def)

theorem ExecuteClassic_parameter_count_mismatch_example:
  "ExecuteClassic (scripted ((\<lambda>c. [])(Bind_parameter_count 1 := [2]))) conn1
     (Sqlite3_Statement stmt1) [StringValue ''a''] [] =
     (Returns (None, Some (DriverError
        (''Execute: Number of parameters doesn'' @ [CHR 0x27] @ ''t match!''))),
      [Bind_parameter_count 1])"
  using ExecuteClassic_parameter_count_mismatch
    [of "[StringValue ''a'']" "scripted ((\<lambda>c. [])(Bind_parameter_count 1 := [2]))" "[]" stmt1 conn1]
  by (simp add: example_defs)

text \<open>
  C7. The open that takes a connection string forces the flags (lemma
  open_forces_full_mutex). The open of the draft, which takes a map of options, does
  not: the value given under "sqlite.flags" reaches sqlite3_open_v2 as it is, so that a
  caller who asks for OpenNoMutex gets a connection opened with the no-mutex bit set
  and the full-mutex bit clear.
\<close>

theorem draft_open_passes_no_mutex:
  "draft_open (scripted (\<lambda>c. [])) info1 [] =
     (Returns (Some conn1, None), [Open_v2 ''test.db'' 0x8000 None, Busy_timeout 1 16000])
   \<and> open_flags (snd (draft_open E info1 tr)) = open_flags tr @ [0x8000]
   \<and> (0x8000 :: cint) AND 0x8000 \<noteq> 0
   \<and> (0x8000 :: cint) AND 0x10000 \<noteq> 0x10000"
  by (simp add: draft_open_def draft_parseConnInfo_def draft_Connection_error_def info1_def
      Let_def split_def open_flags_append defaultTimeoutMilliseconds_def conn1_def StatusOk_def)

text \<open>
  C8: when sqlite3_open_v2 fails and has stored a handle, or when
  sqlite3_busy_timeout or sqlite3_extended_result_codes fails, open reads the error
  of the connection first, then calls sqlite3_close on the handle, and returns no
  connection and the error read before the close; when the close fails too, its error
  is read and dropped.
\<close>

theorem open_failure_closes_handle:
  assumes p: "parseConnInfo L url = (name, flags0, vfs, None)"
    and c: "c = Open_v2 name (word_of_int ((flags0 AND NOT OpenNoMutex) OR OpenFullMutex)) vfs"
    and h: "h = returns_pointer E tr c"
    and b: "b = Busy_timeout h (word_of_int defaultTimeoutMilliseconds)"
    and x: "x = Extended_result_codes h 1"
  shows
    "(returns E tr c \<noteq> StatusOk \<and> h \<noteq> nil \<longrightarrow>
        open L E url tr =
          ((None, Some (fst (Connection_error E \<lparr>conn_handle = h\<rparr> (tr @ [c])))),
           tr @ [c, Errcode h, Errmsg h, Close_db h] @
             (if returns E (tr @ [c, Errcode h, Errmsg h]) (Close_db h) = StatusOk then []
              else [Errcode h, Errmsg h])))
     \<and> (returns E tr c = StatusOk \<and> returns E (tr @ [c]) b \<noteq> StatusOk \<longrightarrow>
        open L E url tr =
          ((None, Some (fst (Connection_error E \<lparr>conn_handle = h\<rparr> (tr @ [c, b])))),
           tr @ [c, b, Errcode h, Errmsg h, Close_db h] @
             (if returns E (tr @ [c, b, Errcode h, Errmsg h]) (Close_db h) = StatusOk then []
              else [Errcode h, Errmsg h])))
     \<and> (returns E tr c = StatusOk \<and> returns E (tr @ [c]) b = StatusOk
          \<and> returns E (tr @ [c, b]) x \<noteq> StatusOk \<longrightarrow>
        open L E url tr =
          ((None, Some (fst (Connection_error E \<lparr>conn_handle = h\<rparr> (tr @ [c, b, x])))),
           tr @ [c, b, x, Errcode h, Errmsg h, Close_db h] @
             (if returns E (tr @ [c, b, x, Errcode h, Errmsg h]) (Close_db h) = StatusOk then []
              else [Errcode h, Errmsg h])))"
  unfolding open_def p c h b x
  by (simp add: Let_def split_def Connection_error_log Connection_Close_log)

theorem open_failure_closes_handle_example:
  "open library1 (scripted ((\<lambda>c. [])(Open_v2 ''test.db'' 0x10000 None := [14], Errcode 1 := [14, 5],
        Close_db 1 := [5]))) ''sqlite3://test.db?flags=32768'' [] =
     ((None, Some (SystemError 14 14 ''text'')),
      [Open_v2 ''test.db'' 0x10000 None, Errcode 1, Errmsg 1, Close_db 1, Errcode 1, Errmsg 1])
   \<and> open library1 (scripted ((\<lambda>c. [])(Busy_timeout 1 16000 := [5], Errcode 1 := [5]))) 
        ''sqlite3://test.db?flags=32768'' [] =
     ((None, Some (SystemError 5 5 ''text'')),
      [Open_v2 ''test.db'' 0x10000 None, Busy_timeout 1 16000, Errcode 1, Errmsg 1, Close_db 1])
   \<and> open library1 (scripted ((\<lambda>c. [])(Extended_result_codes 1 1 := [21], Errcode 1 := [21]))) 
        ''sqlite3://test.db?flags=32768'' [] =
     ((None, Some (SystemError 21 21 ''text'')),
      [Open_v2 ''test.db'' 0x10000 None, Busy_timeout 1 16000, Extended_result_codes 1 1,
       Errcode 1, Errmsg 1, Close_db 1])"
  using
    open_failure_closes_handle [OF parse_library1 refl refl refl refl,
      of "scripted ((\<lambda>c. [])(Open_v2 ''test.db'' 0x10000 None := [14], Errcode 1 := [14, 5],
        Close_db 1 := [5]))" "[]" "''sqlite3://test.db?flags=32768''"]
    open_failure_closes_handle [OF parse_library1 refl refl refl refl,
      of "scripted ((\<lambda>c. [])(Busy_timeout 1 16000 := [5], Errcode 1 := [5]))" "[]"
         "''sqlite3://test.db?flags=32768''"]
    open_failure_closes_handle [OF parse_library1 refl refl refl refl,
      of "scripted ((\<lambda>c. [])(Extended_result_codes 1 1 := [21], Errcode 1 := [21]))" "[]"
         "''sqlite3://test.db?flags=32768''"]
  by (simp add: flags_library1 defaultTimeoutMilliseconds_def Connection_error_def Let_def
      StatusOk_def nil_def)

text \<open>
  C9: the error built by Connection.error stores as basic code the extended code
  masked to its low byte, and carries the message the engine reports when the error is
  built (the call right after the one for the code).
\<close>

theorem Connection_error_basic_is_masked_extended:
  "basic (fst (Connection_error E self tr)) = extended (fst (Connection_error E self tr)) AND 0xff
   \<and> extended (fst (Connection_error E self tr)) = sint (returns E tr (Errcode (conn_handle self)))
   \<and> message (fst (Connection_error E self tr)) =
       returns_text E (tr @ [Errcode (conn_handle self)]) (Errmsg (conn_handle self))
   \<and> snd (Connection_error E self tr) = tr @ [Errcode (conn_handle self), Errmsg (conn_handle self)]"
  by (simp add: Connection_error_def call_int_def call_text_def Let_def)

text \<open>
  C10: FetchOne, FetchRow and Fetch, called while the flag is true on a statement for
  which the engine reports no column (a count of zero or less), return a driver error
  and no row, leave the cursor as it was, and make no call after the one that asked
  for the count: no step.
\<close>

theorem fetch_no_columns:
  "(result self \<and> sint (returns E tr (Column_count (stmt_handle (statement self)))) \<le> 0 \<longrightarrow>
      FetchOne E self tr =
        (([], Some (DriverError ''FetchOne: No columns in result!'')), self,
         tr @ [Column_count (stmt_handle (statement self))])
      \<and> FetchRow E self tr =
        ((Map.empty, Some (DriverError ''FetchRow: No columns in result!'')), self,
         tr @ [Column_count (stmt_handle (statement self))]))
   \<and> (rs_more rs \<and> sint (returns E tr (Column_count (stmt_handle (rs_statement rs)))) \<le> 0 \<longrightarrow>
      Fetch E rs tr =
        (\<lparr>res_data = [], res_error = Some (DriverError ''Fetch: No columns in result!'')\<rparr>, rs,
         tr @ [Column_count (stmt_handle (rs_statement rs))]))"
  by (simp add: FetchOne_def FetchRow_def Fetch_def Let_def)

theorem fetch_no_columns_example:
  "FetchOne (scripted ((\<lambda>c. [])(Column_count 1 := [0]))) cursor1 [] =
     (([], Some (DriverError ''FetchOne: No columns in result!'')), cursor1, [Column_count 1])
   \<and> FetchRow (scripted ((\<lambda>c. [])(Column_count 1 := [0]))) cursor1 [] =
     ((Map.empty, Some (DriverError ''FetchRow: No columns in result!'')), cursor1, [Column_count 1])
   \<and> Fetch (scripted ((\<lambda>c. [])(Column_count 1 := [0]))) rset1 [] =
     (\<lparr>res_data = [], res_error = Some (DriverError ''Fetch: No columns in result!'')\<rparr>, rset1,
      [Column_count 1])"
  using fetch_no_columns [of cursor1 "scripted ((\<lambda>c. [])(Column_count 1 := [0]))" "[]" rset1]
  by (simp add: example_defs)

end
